theory Spec2Isabelle
  imports Complex_Main
begin

section \<open>The training wrapper \<^verbatim>\<open>axelerate/networks/common_utils/fit.py\<close>\<close>

text \<open>
  The module holds two functions, \<^verbatim>\<open>train\<close> and \<^verbatim>\<open>_print_time\<close>. \<^verbatim>\<open>train\<close> mutates the
  layers of the model it is given and otherwise acts through calls into the operating system
  and the deep-learning framework. The embedding keeps the model as explicit state, records
  every outward call as an event of a trace, in program order, and takes what the outside
  world answers (the clock, and whether an outward call raises) from a record \<open>env\<close>.
  A call is recorded when it is made, before its outcome is known, so an event in the trace
  means that the call was reached.

  The learning rate and the literal hyperparameters are floats that \<^verbatim>\<open>train\<close> only hands
  on; they are written as the reals they denote. The elapsed time is computed with: it is a
  Python number, an int or an IEEE double, and \<^verbatim>\<open>_print_time\<close> compares it, divides it with
  rounding to the nearest double, and truncates it.
\<close>

subsection \<open>Python values, exceptions and dictionaries\<close>

text \<open>The values \<^verbatim>\<open>first_trainable_layer\<close> may hold: \<^verbatim>\<open>None\<close>, a bool, an int or a string.\<close>

datatype pyval = PyNone | PyBool bool | PyInt int | PyStr string

text \<open>Python's truth value, as \<^verbatim>\<open>not first_trainable_layer\<close> tests it.\<close>

fun truthy :: "pyval \<Rightarrow> bool" where
  "truthy PyNone = False"
| "truthy (PyBool b) = b"
| "truthy (PyInt i) = (i \<noteq> 0)"
| "truthy (PyStr s) = (s \<noteq> [])"

text \<open>
  \<^verbatim>\<open>first_trainable_layer in layer_names\<close>: the names are strings, and a string equals
  no value of another type.
\<close>

definition py_in :: "pyval \<Rightarrow> string list \<Rightarrow> bool" where
  "py_in v layer_names = (v \<in> PyStr ` set layer_names)"

datatype exn =
    Exception string
  | KeyError string
  | UnboundLocalError string
  | KeyboardInterrupt
  | OSError string
  | ValueError string
  | OverflowError string

type_synonym 'v dict = "(string \<times> 'v) list"

text \<open>\<^verbatim>\<open>d[k]\<close>: a missing key raises \<^verbatim>\<open>KeyError\<close>.\<close>

definition getitem :: "'v dict \<Rightarrow> string \<Rightarrow> exn + 'v" where
  "getitem d k = (case map_of d k of None \<Rightarrow> Inl (KeyError k) | Some v \<Rightarrow> Inr v)"

text \<open>The truth value of \<^verbatim>\<open>metrics_dict\<close>: \<^verbatim>\<open>None\<close> and the empty dictionary are falsy.\<close>

fun truthy_dict :: "'v dict option \<Rightarrow> bool" where
  "truthy_dict None = False"
| "truthy_dict (Some d) = (d \<noteq> [])"

subsection \<open>The model, the framework objects and the outward calls\<close>

record layer =
  name :: string
  trainable :: bool

record model =
  name :: string
  layers :: "layer list"

text \<open>A batch generator is used through \<^verbatim>\<open>len\<close> only and otherwise handed to \<^verbatim>\<open>fit\<close>.\<close>

record batch_gen =
  len :: nat

datatype optimizer =
  Adam real real real real real
  \<comment> \<open>\<^verbatim>\<open>lr\<close>, \<^verbatim>\<open>beta_1\<close>, \<^verbatim>\<open>beta_2\<close>, \<^verbatim>\<open>epsilon\<close>, \<^verbatim>\<open>decay\<close>\<close>

datatype callback =
    EarlyStopping string real int string int bool
    \<comment> \<open>\<^verbatim>\<open>monitor\<close>, \<^verbatim>\<open>min_delta\<close>, \<^verbatim>\<open>patience\<close>, \<^verbatim>\<open>mode\<close>, \<^verbatim>\<open>verbose\<close>, \<^verbatim>\<open>restore_best_weights\<close>\<close>
  | ModelCheckpoint string string int bool string int
    \<comment> \<open>\<^verbatim>\<open>filepath\<close>, \<^verbatim>\<open>monitor\<close>, \<^verbatim>\<open>verbose\<close>, \<^verbatim>\<open>save_best_only\<close>, \<^verbatim>\<open>mode\<close>, \<^verbatim>\<open>period\<close>\<close>
  | ReduceLROnPlateau string real int real string int
    \<comment> \<open>\<^verbatim>\<open>monitor\<close>, \<^verbatim>\<open>factor\<close>, \<^verbatim>\<open>patience\<close>, \<^verbatim>\<open>min_lr\<close>, \<^verbatim>\<open>mode\<close>, \<^verbatim>\<open>verbose\<close>\<close>
  | WarmUpCosineDecayScheduler real int real int int int
    \<comment> \<open>\<^verbatim>\<open>learning_rate_base\<close>, \<^verbatim>\<open>total_steps\<close>, \<^verbatim>\<open>warmup_learning_rate\<close>, \<^verbatim>\<open>warmup_steps\<close>,
        \<^verbatim>\<open>hold_base_rate_steps\<close>, \<^verbatim>\<open>verbose\<close>\<close>
  | TensorBoard string int
    \<comment> \<open>\<^verbatim>\<open>log_dir\<close>, \<^verbatim>\<open>histogram_freq\<close>\<close>

record fit_args =
  x :: batch_gen
  steps_per_epoch :: nat
  epochs :: int
  validation_data :: batch_gen
  validation_steps :: nat
  callbacks :: "callback list"
  verbose :: int
  workers :: int
  max_queue_size :: int
  use_multiprocessing :: bool

text \<open>The arguments of a \<^verbatim>\<open>print\<close> call, as objects, not rendered.\<close>

datatype parg = PStr string | PInt int | PStrList "string list"

datatype 'l event =
    Print "parg list"
  | MakeDirs string
  | Compile 'l optimizer string
    \<comment> \<open>\<^verbatim>\<open>loss\<close>, \<^verbatim>\<open>optimizer\<close>, \<^verbatim>\<open>metrics\<close>\<close>
  | Summary
  | Fit fit_args
  | Save string bool bool
    \<comment> \<open>\<^verbatim>\<open>filepath\<close>, \<^verbatim>\<open>overwrite\<close>, \<^verbatim>\<open>include_optimizer\<close>\<close>
  | CopyTree string string

text \<open>
  What the outside world answers during one call of \<^verbatim>\<open>train\<close>: the formatted date, the
  seconds between the two readings of the clock (a finite double), and for each call into the file system or
  the model (\<^verbatim>\<open>os.makedirs\<close>, \<^verbatim>\<open>compile\<close>, \<^verbatim>\<open>fit\<close>, \<^verbatim>\<open>save\<close>, \<^verbatim>\<open>shutil.copytree\<close>) the
  exception it raises, if any. Building the optimizer and the callback objects, \<^verbatim>\<open>summary\<close>
  and \<^verbatim>\<open>print\<close> are taken to return, and no outward call to touch the layers' flags.
\<close>

record env =
  train_date :: string
  process_time :: real
  makedirs_raises :: "exn option"
  compile_raises :: "exn option"
  fit_raises :: "exn option"
  save_raises :: "exn option"
  copytree_raises :: "exn option"

record 'l world =
  the_model :: model
  trace :: "'l event list"

definition emit :: "'l event \<Rightarrow> 'l world \<Rightarrow> 'l world" where
  "emit e w = w\<lparr>trace := trace w @ [e]\<rparr>"

subsection \<open>Paths and number formatting\<close>

text \<open>\<^verbatim>\<open>os.path.join\<close> of two components, as \<^verbatim>\<open>posixpath\<close> defines it.\<close>

definition path_join :: "string \<Rightarrow> string \<Rightarrow> string" where
  "path_join a b =
     (if b \<noteq> [] \<and> hd b = CHR ''/'' then b
      else if a = [] \<or> last a = CHR ''/'' then a @ b
      else a @ ''/'' @ b)"

fun str_nat :: "nat \<Rightarrow> string" where
  "str_nat n =
     (if n < 10 then [''0123456789'' ! n]
      else str_nat (n div 10) @ [''0123456789'' ! (n mod 10)])"

declare str_nat.simps [simp del]

text \<open>\<^verbatim>\<open>"{:d}".format(i)\<close>: the decimal digits, with a minus sign when negative.\<close>

definition format_d :: "int \<Rightarrow> string" where
  "format_d i = (if i < 0 then ''-'' @ str_nat (nat (- i)) else str_nat (nat i))"

text \<open>The value of a decimal digit, to read a rendered number back.\<close>

definition digit_val :: "char \<Rightarrow> nat" where
  "digit_val c = of_char c - 48"

subsection \<open>Python numbers\<close>

text \<open>
  A double is a finite value, an infinity or NaN; a finite double is written as the real it
  denotes (the two zeros are not told apart: nothing here depends on the sign of zero). The
  argument of \<^verbatim>\<open>_print_time\<close> is an int or a double.
\<close>

datatype pyfloat = Finite real | PosInf | NegInf | NaN

datatype pynum = IntNum int | FloatNum pyfloat

text \<open>\<^verbatim>\<open>int.bit_length\<close>: the number of binary digits.\<close>

fun bit_length :: "nat \<Rightarrow> nat" where
  "bit_length n = (if n = 0 then 0 else Suc (bit_length (n div 2)))"

declare bit_length.simps [simp del]

text \<open>The binary exponent of a positive number: the \<open>k\<close> with \<open>2\<^sup>k \<le> y < 2\<^sup>k\<^sup>+\<^sup>1\<close>.\<close>

definition ilog2 :: "real \<Rightarrow> int" where
  "ilog2 y =
     (if 1 \<le> y then int (bit_length (nat \<lfloor>y\<rfloor>)) - 1
      else - int (bit_length (nat (\<lceil>1 / y\<rceil> - 1))))"

text \<open>Rounding to the nearest integer, a tie going to the even one.\<close>

definition round_half_even :: "real \<Rightarrow> int" where
  "round_half_even y =
     (let f = \<lfloor>y\<rfloor>; d = y - of_int f
      in if d < 1 / 2 then f
         else if 1 / 2 < d then f + 1
         else if even f then f else f + 1)"

text \<open>
  The IEEE 754 binary64 rounding of an exact result, in the default mode (to nearest, ties to
  even): 53 significant bits, the least exponent of the last bit \<open>-1074\<close> (so small results
  are subnormal), and an infinity when the rounded magnitude reaches \<open>2\<^sup>1\<^sup>0\<^sup>2\<^sup>4\<close>.
\<close>

definition round_double :: "real \<Rightarrow> pyfloat" where
  "round_double y =
     (if y = 0 then Finite 0
      else
        (let a = \<bar>y\<bar>;
             e = max (ilog2 a - 52) (- 1074);
             m = round_half_even (a / 2 powi e);
             v = of_int m * 2 powi e
         in if 2 ^ 1024 \<le> v then (if 0 < y then PosInf else NegInf)
            else Finite (if 0 < y then v else - v)))"

text \<open>\<^verbatim>\<open>process_time < 60\<close>: an int or a finite double is compared exactly; NaN is less than nothing.\<close>

fun lt_60 :: "pynum \<Rightarrow> bool" where
  "lt_60 (IntNum i) = (i < 60)"
| "lt_60 (FloatNum (Finite r)) = (r < 60)"
| "lt_60 (FloatNum PosInf) = False"
| "lt_60 (FloatNum NegInf) = True"
| "lt_60 (FloatNum NaN) = False"

text \<open>
  \<^verbatim>\<open>process_time / 60\<close>. A double is divided in IEEE arithmetic. Two ints are divided exactly
  and the quotient rounded once; a quotient too large for a double raises.
\<close>

fun div_60 :: "pynum \<Rightarrow> exn + pyfloat" where
  "div_60 (IntNum i) =
     (case round_double (of_int i / 60) of
        Finite q \<Rightarrow> Inr (Finite q)
      | _ \<Rightarrow> Inl (OverflowError ''integer division result too large for a float''))"
| "div_60 (FloatNum (Finite r)) = Inr (round_double (r / 60))"
| "div_60 (FloatNum PosInf) = Inr PosInf"
| "div_60 (FloatNum NegInf) = Inr NegInf"
| "div_60 (FloatNum NaN) = Inr NaN"

text \<open>Truncation towards zero.\<close>

definition truncate :: "real \<Rightarrow> int" where
  "truncate r = (if 0 \<le> r then \<lfloor>r\<rfloor> else \<lceil>r\<rceil>)"

text \<open>\<^verbatim>\<open>int(x)\<close>: a finite double is truncated; an infinity and NaN raise.\<close>

fun py_int :: "pynum \<Rightarrow> exn + int" where
  "py_int (IntNum i) = Inr i"
| "py_int (FloatNum (Finite r)) = Inr (truncate r)"
| "py_int (FloatNum PosInf) = Inl (OverflowError ''cannot convert float infinity to integer'')"
| "py_int (FloatNum NegInf) = Inl (OverflowError ''cannot convert float infinity to integer'')"
| "py_int (FloatNum NaN) = Inl (ValueError ''cannot convert float NaN to integer'')"

subsection \<open>\<^verbatim>\<open>_print_time\<close>\<close>

text \<open>The argument of \<^verbatim>\<open>format\<close> is evaluated first: when it raises, nothing is printed.\<close>

definition print_time :: "pynum \<Rightarrow> 'l world \<Rightarrow> 'l world \<times> (exn + unit)" where
  "print_time t w =
     (if lt_60 t then
        (case py_int t of
           Inl e \<Rightarrow> (w, Inl e)
         | Inr i \<Rightarrow> (emit (Print [PStr (format_d i @ ''-seconds to train'')]) w, Inr ()))
      else
        (case div_60 t of
           Inl e \<Rightarrow> (w, Inl e)
         | Inr q \<Rightarrow>
            (case py_int (FloatNum q) of
               Inl e \<Rightarrow> (w, Inl e)
             | Inr i \<Rightarrow> (emit (Print [PStr (format_d i @ ''-mins to train'')]) w, Inr ()))))"

subsection \<open>\<^verbatim>\<open>train\<close>\<close>

text \<open>
  The loop of step 1: it walks the layers in order, stops at the first one whose name is
  \<^verbatim>\<open>first_trainable_layer\<close>, and before that sets \<^verbatim>\<open>trainable = False\<close> and appends the name
  to \<^verbatim>\<open>fixed_layers\<close>. The result is the layer list after the loop and \<^verbatim>\<open>fixed_layers\<close>.
\<close>

fun freeze_loop :: "pyval \<Rightarrow> layer list \<Rightarrow> layer list \<times> string list" where
  "freeze_loop first_trainable_layer [] = ([], [])"
| "freeze_loop first_trainable_layer (l # ls) =
     (if PyStr (layer.name l) = first_trainable_layer then (l # ls, [])
      else (case freeze_loop first_trainable_layer ls of
              (ls', fixed_layers) \<Rightarrow> (l\<lparr>trainable := False\<rparr> # ls', layer.name l # fixed_layers)))"

text \<open>Step 1, lines 48 to 62: the three branches on \<^verbatim>\<open>first_trainable_layer\<close>.\<close>

definition freeze_layers :: "pyval \<Rightarrow> 'l world \<Rightarrow> 'l world \<times> (exn + string list)" where
  "freeze_layers first_trainable_layer w =
     (let layer_names = map layer.name (layers (the_model w)) in
      if py_in first_trainable_layer layer_names then
        (case freeze_loop first_trainable_layer (layers (the_model w)) of
           (ls', fixed_layers) \<Rightarrow> (w\<lparr>the_model := (the_model w)\<lparr>layers := ls'\<rparr>\<rparr>, Inr fixed_layers))
      else if \<not> truthy first_trainable_layer then (w, Inr [])
      else
        (let w1 = emit (Print [PStr ''First trainable layer specified in config file is not in the model. Did you mean one of these?'']) w;
             w2 = foldl (\<lambda>w (i, l). emit (Print [PInt (int i), PStr (layer.name l)]) w) w1
                    (enumerate 0 (layers (the_model w)))
         in (w2, Inl (Exception ''First trainable layer specified in config file is not in the model''))))"

text \<open>
  Lines 71 to 75. The local \<^verbatim>\<open>best_value\<close> is bound in the first branch only: \<open>None\<close> stands
  for the unbound local.
\<close>

definition resolve_metrics :: "string dict dict option \<Rightarrow> string \<Rightarrow> exn + (string option \<times> string)" where
  "resolve_metrics metrics_dict metric =
     (case metrics_dict of
        None \<Rightarrow> Inr (None, metric)
      | Some d \<Rightarrow>
         if truthy_dict (Some d) then
           (case getitem d metric of
              Inl e \<Rightarrow> Inl e
            | Inr entry \<Rightarrow>
               (case getitem entry ''best_value'' of
                  Inl e \<Rightarrow> Inl e
                | Inr best_value \<Rightarrow>
                   (case getitem entry ''name'' of
                      Inl e \<Rightarrow> Inl e
                    | Inr metrics \<Rightarrow> Inr (Some best_value, metrics))))
         else Inr (None, metric))"

text \<open>Step 4, lines 83 to 108: the callback objects.\<close>

definition tensorboard_callback :: callback where
  "tensorboard_callback = TensorBoard ''logs'' 1"

definition early_stop :: "string \<Rightarrow> string \<Rightarrow> callback" where
  "early_stop metric best_value = EarlyStopping metric (1 / 1000) 20 best_value 2 True"

definition checkpoint :: "string \<Rightarrow> string \<Rightarrow> string \<Rightarrow> callback" where
  "checkpoint save_weights_name metric best_value =
     ModelCheckpoint save_weights_name metric 2 True best_value 1"

definition reduce_lr :: "string \<Rightarrow> string \<Rightarrow> callback" where
  "reduce_lr metric best_value = ReduceLROnPlateau metric (2 / 10) 10 (1 / 100000) best_value 2"

definition warm_up_lr :: "real \<Rightarrow> batch_gen \<Rightarrow> int \<Rightarrow> callback" where
  "warm_up_lr learning_rate train_batch_gen nb_epoch =
     WarmUpCosineDecayScheduler learning_rate
       (int (len train_batch_gen) * nb_epoch)
       0
       (int (len train_batch_gen) * min 3 (nb_epoch - 1))
       0
       1"

text \<open>
  Reading the unbound local \<^verbatim>\<open>best_value\<close>, which the arguments of \<^verbatim>\<open>EarlyStopping\<close> do
  first, raises \<^verbatim>\<open>UnboundLocalError\<close>. \<^verbatim>\<open>reduce_lr\<close> is built and left out of the list.
\<close>

definition create_callbacks ::
  "string option \<Rightarrow> string \<Rightarrow> string \<Rightarrow> real \<Rightarrow> batch_gen \<Rightarrow> int \<Rightarrow> exn + callback list" where
  "create_callbacks best_value metric save_weights_name learning_rate train_batch_gen nb_epoch =
     (case best_value of
        None \<Rightarrow> Inl (UnboundLocalError ''best_value'')
      | Some bv \<Rightarrow>
         (let reduce_lr = reduce_lr metric bv
          in Inr [early_stop metric bv,
                  checkpoint save_weights_name metric bv,
                  warm_up_lr learning_rate train_batch_gen nb_epoch,
                  tensorboard_callback]))"

text \<open>The arguments of the call of \<^verbatim>\<open>model.fit\<close>, lines 112 to 121.\<close>

definition fit_call :: "batch_gen \<Rightarrow> batch_gen \<Rightarrow> int \<Rightarrow> callback list \<Rightarrow> fit_args" where
  "fit_call train_batch_gen valid_batch_gen nb_epoch cbs =
     \<lparr>x = train_batch_gen,
      steps_per_epoch = len train_batch_gen,
      epochs = nb_epoch,
      validation_data = valid_batch_gen,
      validation_steps = len valid_batch_gen,
      callbacks = cbs,
      verbose = 1,
      workers = 4,
      max_queue_size = 10,
      use_multiprocessing = True\<rparr>"

text \<open>Lines 110 to 130: the call of \<^verbatim>\<open>fit\<close>, the handler of \<^verbatim>\<open>KeyboardInterrupt\<close> and the normal end.\<close>

definition training ::
  "env \<Rightarrow> string \<Rightarrow> string \<Rightarrow> string \<Rightarrow> batch_gen \<Rightarrow> batch_gen \<Rightarrow> int \<Rightarrow> callback list \<Rightarrow>
   'l world \<Rightarrow> 'l world \<times> (exn + layer list \<times> string)" where
  "training en path save_weights_name save_weights_name_ctrlc train_batch_gen valid_batch_gen
     nb_epoch cbs w =
     (let w1 = emit (Fit (fit_call train_batch_gen valid_batch_gen nb_epoch cbs)) w
      in case fit_raises en of
           Some e \<Rightarrow>
             if e = KeyboardInterrupt then
               (let w2 = emit (Print [PStr ''Saving model and copying logs'']) w1;
                    w3 = emit (Save save_weights_name_ctrlc True False) w2
                in case save_raises en of
                     Some e' \<Rightarrow> (w3, Inl e')
                   | None \<Rightarrow>
                      (let w4 = emit (CopyTree ''logs'' (path_join path ''logs'')) w3
                       in case copytree_raises en of
                            Some e' \<Rightarrow> (w4, Inl e')
                          | None \<Rightarrow> (w4, Inr (layers (the_model w4), save_weights_name_ctrlc))))
             else (w1, Inl e)
         | None \<Rightarrow>
            (let w2 = emit (CopyTree ''logs'' (path_join path ''logs'')) w1
             in case copytree_raises en of
                  Some e' \<Rightarrow> (w2, Inl e')
                | None \<Rightarrow>
                   (case print_time (FloatNum (Finite (process_time en))) w2 of
                      (w3, Inl e') \<Rightarrow> (w3, Inl e')
                    | (w3, Inr _) \<Rightarrow> (w3, Inr (layers (the_model w3), save_weights_name)))))"

text \<open>Lines 64 to 108: the report of the frozen layers, the optimizer, compilation, the callbacks.\<close>

definition compiling ::
  "env \<Rightarrow> string \<Rightarrow> string \<Rightarrow> string \<Rightarrow> string list \<Rightarrow> 'l \<Rightarrow> batch_gen \<Rightarrow> batch_gen \<Rightarrow>
   real \<Rightarrow> int \<Rightarrow> string dict dict option \<Rightarrow> string \<Rightarrow>
   'l world \<Rightarrow> 'l world \<times> (exn + layer list \<times> string)" where
  "compiling en path save_weights_name save_weights_name_ctrlc fixed_layers loss_func
     train_batch_gen valid_batch_gen learning_rate nb_epoch metrics_dict metric w =
     (let w1 = (if fixed_layers \<noteq> [] then
                  emit (Print [PStr ''    '', PStrList fixed_layers])
                    (emit (Print [PStr ''The following layers do not update weights!!!'']) w)
                else w);
          optimizer = Adam learning_rate (9 / 10) (999 / 1000) (1 / 100000000) 0
      in case resolve_metrics metrics_dict metric of
           Inl e \<Rightarrow> (w1, Inl e)
         | Inr (best_value, metrics) \<Rightarrow>
            (let w2 = emit (Compile loss_func optimizer metrics) w1
             in case compile_raises en of
                  Some e \<Rightarrow> (w2, Inl e)
                | None \<Rightarrow>
                   (let w3 = emit Summary w2
                    in case create_callbacks best_value metric save_weights_name learning_rate
                              train_batch_gen nb_epoch of
                         Inl e \<Rightarrow> (w3, Inl e)
                       | Inr cbs \<Rightarrow>
                           training en path save_weights_name save_weights_name_ctrlc
                             train_batch_gen valid_batch_gen nb_epoch cbs w3)))"

text \<open>
  The whole function. The result is the world after the call (the model with its layers as
  \<^verbatim>\<open>train\<close> left them, and the trace) and either the exception that left \<^verbatim>\<open>train\<close> or the
  returned pair.
\<close>

definition train ::
  "env \<Rightarrow> model \<Rightarrow> 'l \<Rightarrow> batch_gen \<Rightarrow> batch_gen \<Rightarrow> real \<Rightarrow> int \<Rightarrow> string \<Rightarrow> pyval \<Rightarrow>
   string dict dict option \<Rightarrow> string \<Rightarrow> 'l world \<times> (exn + layer list \<times> string)" where
  "train en model loss_func train_batch_gen valid_batch_gen learning_rate nb_epoch project_folder
     first_trainable_layer metrics_dict metric =
     (let path = path_join project_folder (train_date en);
          basename = model.name model @ ''_best_'' @ metric;
          w0 = \<lparr>the_model = model, trace = []\<rparr>;
          w1 = emit (Print [PStr (''Current training session folder is '' @ path)]) w0;
          w2 = emit (MakeDirs path) w1
      in case makedirs_raises en of
           Some e \<Rightarrow> (w2, Inl e)
         | None \<Rightarrow>
            (let save_weights_name = path_join path (basename @ ''.h5'');
                 save_weights_name_ctrlc = path_join path (basename @ ''_ctrlc.h5'');
                 w3 = emit (Print [PStr [CHR 0x0A]]) w2
             in case freeze_layers first_trainable_layer w3 of
                  (w4, Inl e) \<Rightarrow> (w4, Inl e)
                | (w4, Inr fixed_layers) \<Rightarrow>
                    compiling en path save_weights_name save_weights_name_ctrlc fixed_layers
                      loss_func train_batch_gen valid_batch_gen learning_rate nb_epoch
                      metrics_dict metric w4))"

subsection \<open>A sample call\<close>

text \<open>
  A three-layer model, an environment in which no outward call raises, and a metrics
  dictionary with the entry of the default monitor; the theorems below are instantiated here.
\<close>

definition example_model :: model where
  "example_model =
     \<lparr>name = ''yolo'',
      layers = [\<lparr>layer.name = ''conv_1'', trainable = True\<rparr>,
                \<lparr>layer.name = ''conv_2'', trainable = True\<rparr>,
                \<lparr>layer.name = ''detection'', trainable = True\<rparr>]\<rparr>"

definition example_env :: env where
  "example_env =
     \<lparr>train_date = ''2020-01-31_12-00-00'', process_time = 125,
      makedirs_raises = None, compile_raises = None, fit_raises = None,
      save_raises = None, copytree_raises = None\<rparr>"

definition example_metrics :: "string dict dict option" where
  "example_metrics = Some [(''val_loss'', [(''name'', ''loss''), (''best_value'', ''min'')])]"

section \<open>Properties\<close>

subsection \<open>The trace and the model under \<open>emit\<close>\<close>

lemma trace_emit [simp]: "trace (emit e w) = trace w @ [e]"
  by (simp add: emit_def)

lemma the_model_emit [simp]: "the_model (emit e w) = the_model w"
  by (simp add: emit_def)

subsection \<open>Truncation and decimal rendering\<close>

lemma digit_val_nth: "n < 10 \<Longrightarrow> digit_val (''0123456789'' ! n) = n"
proof -
  assume "n < 10"
  then have "n \<in> {0, 1, 2, 3, 4, 5, 6, 7, 8, 9}"
    by auto
  then show ?thesis
    by (auto simp: digit_val_def)
qed

text \<open>The digits \<open>str_nat\<close> writes are the decimal numeral of its argument.\<close>

lemma str_nat_value: "foldl (\<lambda>a c. 10 * a + digit_val c) 0 (str_nat n) = n"
proof (induction n rule: str_nat.induct)
  case (1 n)
  show ?case
  proof (cases "n < 10")
    case True
    then show ?thesis by (subst str_nat.simps) (simp add: digit_val_nth)
  next
    case False
    with 1 show ?thesis by (subst str_nat.simps) (simp add: digit_val_nth)
  qed
qed

subsection \<open>Rounding to a double\<close>

lemma bit_length_bounds: "0 < n \<Longrightarrow> 2 ^ (bit_length n - 1) \<le> n \<and> n < 2 ^ bit_length n"
proof (induction n rule: bit_length.induct)
  case (1 n)
  show ?case
  proof (cases "n div 2 = 0")
    case True
    with 1 have "n = 1" by (simp add: div_eq_0_iff)
    then show ?thesis by (simp add: bit_length.simps)
  next
    case False
    with 1 have ih: "2 ^ (bit_length (n div 2) - 1) \<le> n div 2" "n div 2 < 2 ^ bit_length (n div 2)"
      by auto
    have pos: "0 < bit_length (n div 2)"
      using False by (subst bit_length.simps) simp
    have bl: "bit_length n = Suc (bit_length (n div 2))"
      using 1(2) by (subst bit_length.simps) simp
    have "2 ^ (bit_length n - 1) = 2 * 2 ^ (bit_length (n div 2) - 1)"
      using pos by (simp add: bl flip: power_Suc)
    also have "\<dots> \<le> 2 * (n div 2)" using ih(1) by simp
    also have "\<dots> \<le> n" by simp
    finally have a: "2 ^ (bit_length n - 1) \<le> n" .
    have "n < 2 * (n div 2) + 2" by presburger
    also have "\<dots> \<le> 2 * 2 ^ bit_length (n div 2)" using ih(2) by simp
    finally have "n < 2 ^ bit_length n" by (simp add: bl)
    with a show ?thesis by simp
  qed
qed

lemma ilog2_lower:
  assumes "1 \<le> y"
  shows "0 \<le> ilog2 y" and "2 powi ilog2 y \<le> y"
proof -
  let ?n = "nat \<lfloor>y\<rfloor>"
  have n: "0 < ?n" using assms by simp
  from bit_length_bounds [OF n] have b: "2 ^ (bit_length ?n - 1) \<le> ?n" by simp
  have pos: "0 < bit_length ?n"
    using n by (subst bit_length.simps) simp
  have il: "ilog2 y = int (bit_length ?n - 1)"
    using assms pos by (simp add: ilog2_def)
  show "0 \<le> ilog2 y" by (simp add: il)
  have "(2::real) powi ilog2 y = 2 ^ (bit_length ?n - 1)"
    by (simp add: il)
  also have "\<dots> = of_nat (2 ^ (bit_length ?n - 1))" by simp
  also have "\<dots> \<le> of_nat ?n" using b by (simp only: of_nat_le_iff)
  also have "\<dots> = of_int \<lfloor>y\<rfloor>" using assms by simp
  also have "\<dots> \<le> y" by simp
  finally show "2 powi ilog2 y \<le> y" .
qed

lemma round_half_even_near: "\<bar>of_int (round_half_even y) - y\<bar> \<le> 1 / 2"
proof -
  have "of_int \<lfloor>y\<rfloor> \<le> y" "y < of_int \<lfloor>y\<rfloor> + 1"
    by linarith+
  then show ?thesis
    unfolding round_half_even_def Let_def by (simp add: abs_le_iff)
qed

text \<open>
  From 1 up to \<open>2\<^sup>1\<^sup>0\<^sup>2\<^sup>3\<close> the rounding is finite and off by at most half a unit in
  the last place, that is by at most \<open>y / 2\<^sup>5\<^sup>3\<close>.
\<close>

lemma round_double_normal:
  assumes "1 \<le> y" and "y < 2 ^ 1023"
  shows "\<exists>q. round_double y = Finite q \<and> \<bar>q - y\<bar> \<le> y / 2 ^ 53"
proof -
  let ?e = "ilog2 y - 52"
  let ?m = "round_half_even (y / 2 powi ?e)"
  let ?v = "of_int ?m * (2::real) powi ?e"
  have x0: "y \<noteq> 0" "0 < y" "\<bar>y\<bar> = y" using assms(1) by simp_all
  have e: "max ?e (- 1074) = ?e"
    using ilog2_lower(1) [OF assms(1)] by simp
  have p: "(0::real) < 2 powi ?e" by simp
  have pe: "(2::real) powi ?e = 2 powi ilog2 y / 2 ^ 52"
    by (simp add: power_int_diff)
  then have ple: "(2::real) powi ?e \<le> y / 2 ^ 52"
    using ilog2_lower(2) [OF assms(1)] by (simp add: divide_right_mono)
  have "\<bar>of_int ?m - y / 2 powi ?e\<bar> \<le> 1 / 2"
    by (rule round_half_even_near)
  then have "\<bar>of_int ?m - y / 2 powi ?e\<bar> * 2 powi ?e \<le> 1 / 2 * 2 powi ?e"
    using p by (simp only: mult_le_cancel_right_pos)
  moreover have "\<bar>of_int ?m - y / 2 powi ?e\<bar> * 2 powi ?e = \<bar>?v - y\<bar>"
  proof -
    have "\<bar>of_int ?m - y / 2 powi ?e\<bar> * 2 powi ?e = \<bar>(of_int ?m - y / 2 powi ?e) * 2 powi ?e\<bar>"
      using p by (simp add: abs_mult)
    also have "(of_int ?m - y / 2 powi ?e) * 2 powi ?e = ?v - y"
      using p by (simp add: left_diff_distrib)
    finally show ?thesis .
  qed
  ultimately have "\<bar>?v - y\<bar> \<le> 1 / 2 * 2 powi ?e" by simp
  also have "\<dots> \<le> 1 / 2 * (y / 2 ^ 52)" using ple by simp
  also have "\<dots> = y / 2 ^ 53" by simp
  finally have near: "\<bar>?v - y\<bar> \<le> y / 2 ^ 53" .
  have "y / 2 ^ 53 \<le> y" using x0(2) by (simp add: field_simps)
  with near have "?v \<le> 2 * y" by linarith
  also have "\<dots> < 2 * 2 ^ 1023" using assms(2) by simp
  finally have small: "?v < 2 ^ 1024" by simp
  have "round_double y = Finite ?v"
    using x0 small by (simp add: round_double_def Let_def e)
  with near show ?thesis by blast
qed

text \<open>The rounding of a positive number, from its exponent and its rounded significand.\<close>

lemma round_double_pos:
  assumes "0 < y" and "ilog2 y = k" and "- 1074 \<le> k - 52"
    and "round_half_even (y / 2 powi (k - 52)) = m"
    and "of_int m * (2::real) powi (k - 52) < 2 ^ 1024"
  shows "round_double y = Finite (of_int m * 2 powi (k - 52))"
proof -
  have "\<bar>y\<bar> = y" "y \<noteq> 0" using assms(1) by simp_all
  moreover have "max (k - 52) (- 1074) = k - 52" using assms(3) by simp
  ultimately show ?thesis
    using assms(1,2,4,5) by (simp add: round_double_def Let_def)
qed

text \<open>
  Sample quotients: \<open>125 / 60\<close>; \<open>10\<^sup>1\<^sup>9 / 60\<close>, whose double is ten below the exact
  quotient's integer part; and a quotient by 60 that rounds up to the next integer.
\<close>

lemma round_double_125: "round_double (25 / 12) = Finite (4691249611844267 / 2251799813685248)"
proof -
  have "round_double (25 / 12) = Finite (of_int 4691249611844267 * 2 powi (1 - 52))"
  proof (rule round_double_pos)
    show "ilog2 (25 / 12) = 1" by (simp add: ilog2_def bit_length.simps)
    show "round_half_even (25 / 12 / 2 powi (1 - 52)) = 4691249611844267"
      by (simp add: round_half_even_def Let_def)
  qed simp_all
  then show ?thesis by simp
qed

lemma round_double_1e19:
  "round_double (500000000000000000 / 3) = Finite 166666666666666656"
proof -
  have "round_double (500000000000000000 / 3) = Finite (of_int 5208333333333333 * 2 powi (57 - 52))"
  proof (rule round_double_pos)
    show "ilog2 (500000000000000000 / 3) = 57" by (simp add: ilog2_def bit_length.simps)
    show "round_half_even (500000000000000000 / 3 / 2 powi (57 - 52)) = 5208333333333333"
      by (simp add: round_half_even_def Let_def)
  qed simp_all
  then show ?thesis by simp
qed

lemma round_double_rounds_up:
  "round_double (17195935839751154 / 15) = Finite 1146395722650077"
proof -
  have "round_double (17195935839751154 / 15) = Finite (of_int 4585582890600308 * 2 powi (50 - 52))"
  proof (rule round_double_pos)
    show "ilog2 (17195935839751154 / 15) = 50" by (simp add: ilog2_def bit_length.simps)
    show "round_half_even (17195935839751154 / 15 / 2 powi (50 - 52)) = 4585582890600308"
      by (simp add: round_half_even_def Let_def)
  qed simp_all
  then show ?thesis by simp
qed

subsection \<open>The elapsed-time printer\<close>


lemma quotient_rounds:
  assumes "60 \<le> r" and "r < 2 ^ 1024"
  shows "\<exists>q. round_double (r / 60) = Finite q \<and> \<bar>q - r / 60\<bar> \<le> r / 60 / 2 ^ 53"
proof -
  have "1 \<le> r / 60" using assms(1) by simp
  moreover have "r / 60 < 2 ^ 1023" using assms(2) by simp
  ultimately show ?thesis
    using round_double_normal [of "r / 60"] by blast
qed

lemma print_time_mins_float:
  assumes "60 \<le> r" and "r < 2 ^ 1024"
  shows "\<exists>q. round_double (r / 60) = Finite q \<and> \<bar>q - r / 60\<bar> \<le> r / 60 / 2 ^ 53 \<and>
           print_time (FloatNum (Finite r)) w =
             (emit (Print [PStr (format_d (truncate q) @ ''-mins to train'')]) w, Inr ())"
proof -
  from quotient_rounds [OF assms] obtain q where
    q: "round_double (r / 60) = Finite q" "\<bar>q - r / 60\<bar> \<le> r / 60 / 2 ^ 53"
    by blast
  have "print_time (FloatNum (Finite r)) w =
      (emit (Print [PStr (format_d (truncate q) @ ''-mins to train'')]) w, Inr ())"
    using assms(1) q(1) by (simp add: print_time_def)
  with q show ?thesis by blast
qed


lemma print_time_not_finite:
  "print_time (FloatNum PosInf) w =
     (w, Inl (OverflowError ''cannot convert float infinity to integer''))"
  "print_time (FloatNum NegInf) w =
     (w, Inl (OverflowError ''cannot convert float infinity to integer''))"
  "print_time (FloatNum NaN) w = (w, Inl (ValueError ''cannot convert float NaN to integer''))"
  by (simp_all add: print_time_def)


lemma print_time_125:
  "print_time (IntNum 125) w = (emit (Print [PStr ''2-mins to train'']) w, Inr ())"
  "print_time (FloatNum (Finite 125)) w = (emit (Print [PStr ''2-mins to train'']) w, Inr ())"
  by (simp_all add: print_time_def round_double_125 format_d_def truncate_def str_nat.simps)

text \<open>
  Where the exact quotient and the double part: \<^verbatim>\<open>int(1e19/60)\<close> is 166666666666666656,
  not the 166666666666666666 of exact division.
\<close>

lemma print_time_1e19:
  "print_time (FloatNum (Finite 10000000000000000000)) w =
     (emit (Print [PStr ''166666666666666656-mins to train'']) w, Inr ())"
  by (simp add: print_time_def round_double_1e19 format_d_def truncate_def str_nat.simps)

text \<open>
  Where rounding carries the quotient up to the next integer: the printed minutes, times 60,
  exceed the elapsed seconds.
\<close>

lemma print_time_rounds_up:
  "print_time (FloatNum (Finite 68783743359004616)) w =
     (emit (Print [PStr ''1146395722650077-mins to train'']) w, Inr ())"
  by (simp add: print_time_def round_double_rounds_up format_d_def truncate_def str_nat.simps)




subsection \<open>The stages of \<^verbatim>\<open>train\<close>\<close>

lemma the_model_print_time [simp]: "the_model (fst (print_time t w)) = the_model w"
  by (simp add: print_time_def split: sum.splits)

lemma trace_print_time:
  "trace (fst (print_time t w)) = trace w \<or>
   (\<exists>s. trace (fst (print_time t w)) = trace w @ [Print [PStr s]])"
  by (simp add: print_time_def split: sum.splits)

text \<open>Step 1: the loop is a prefix update, and the listing only prints.\<close>

lemma freeze_loop_eq:
  "freeze_loop f ls =
     (map (\<lambda>l. l\<lparr>trainable := False\<rparr>) (takeWhile (\<lambda>l. PyStr (layer.name l) \<noteq> f) ls)
        @ dropWhile (\<lambda>l. PyStr (layer.name l) \<noteq> f) ls,
      map layer.name (takeWhile (\<lambda>l. PyStr (layer.name l) \<noteq> f) ls))"
  by (induction ls) auto

lemma print_loop_model:
  "the_model (foldl (\<lambda>w (i, l). emit (Print [PInt (int i), PStr (layer.name l)]) w) w ps) = the_model w"
  by (induction ps arbitrary: w) (auto split: prod.splits)

lemma print_loop_trace:
  "trace (foldl (\<lambda>w (i, l). emit (Print [PInt (int i), PStr (layer.name l)]) w) w ps) =
     trace w @ map (\<lambda>(i, l). Print [PInt (int i), PStr (layer.name l)]) ps"
  by (induction ps arbitrary: w) (auto split: prod.splits)

lemma freeze_layers_result:
  "snd (freeze_layers f w) =
     (if py_in f (map layer.name (layers (the_model w))) then
        Inr (snd (freeze_loop f (layers (the_model w))))
      else if \<not> truthy f then Inr []
      else Inl (Exception ''First trainable layer specified in config file is not in the model''))"
  by (simp add: freeze_layers_def Let_def split: prod.splits)

lemma freeze_layers_model:
  "the_model (fst (freeze_layers f w)) =
     (if py_in f (map layer.name (layers (the_model w))) then
        (the_model w)\<lparr>layers := fst (freeze_loop f (layers (the_model w)))\<rparr>
      else the_model w)"
  by (simp add: freeze_layers_def Let_def print_loop_model split: prod.splits)

lemma freeze_layers_trace:
  "trace (fst (freeze_layers f w)) =
     (if py_in f (map layer.name (layers (the_model w))) \<or> \<not> truthy f then trace w
      else trace w
         @ [Print [PStr ''First trainable layer specified in config file is not in the model. Did you mean one of these?'']]
         @ map (\<lambda>(i, l). Print [PInt (int i), PStr (layer.name l)]) (enumerate 0 (layers (the_model w))))"
  by (simp add: freeze_layers_def Let_def print_loop_trace split: prod.splits)

lemma prints_only_Compile: "Compile l opt ms \<notin> set (map (\<lambda>(i, l). Print [PInt (int i), PStr (layer.name l)]) ps)"
  by (induction ps) auto

lemma prints_only_Fit: "Fit a \<notin> set (map (\<lambda>(i, l). Print [PInt (int i), PStr (layer.name l)]) ps)"
  by (induction ps) auto

text \<open>The metric name and the binding of \<^verbatim>\<open>best_value\<close>.\<close>

lemma resolve_metrics_falsy:
  "\<not> truthy_dict md \<Longrightarrow> resolve_metrics md metric = Inr (None, metric)"
  by (cases md) (simp_all add: resolve_metrics_def)

lemma resolve_metrics_truthy:
  "truthy_dict (Some d) \<Longrightarrow> getitem d metric = Inr entry \<Longrightarrow>
   getitem entry ''best_value'' = Inr bv \<Longrightarrow> getitem entry ''name'' = Inr nm \<Longrightarrow>
   resolve_metrics (Some d) metric = Inr (Some bv, nm)"
  by (simp add: resolve_metrics_def)

lemma resolve_metrics_bound:
  "resolve_metrics md metric = Inr (Some bv, nm) \<Longrightarrow> truthy_dict md"
  by (cases md) (auto simp: resolve_metrics_def split: if_splits)

text \<open>Which \<^verbatim>\<open>compile\<close> and \<^verbatim>\<open>fit\<close> calls the later stages add to the trace.\<close>

lemma the_model_training [simp]:
  "the_model (fst (training en path swn swnc tg vg n cbs w)) = the_model w"
proof -
  have "the_model (fst (case print_time t w' of
            (w3, Inl e') \<Rightarrow> (w3, Inl e')
          | (w3, Inr u) \<Rightarrow> (w3, Inr (layers (the_model w3), swn)))) = the_model w'"
    for t and w' :: "'a world"
    using the_model_print_time [of t w'] by (cases "print_time t w'") (auto split: sum.splits)
  then show ?thesis
    by (simp add: training_def Let_def split: option.splits)
qed

lemma the_model_compiling [simp]:
  "the_model (fst (compiling en path swn swnc fixed lf tg vg lr n md metric w)) = the_model w"
  by (simp add: compiling_def Let_def split: option.splits sum.splits prod.splits)

lemma training_Fit:
  "Fit a \<in> set (trace (fst (training en path swn swnc tg vg n cbs w))) \<longleftrightarrow>
     Fit a \<in> set (trace w) \<or> a = fit_call tg vg n cbs"
  by (auto simp: training_def Let_def print_time_def split: option.splits sum.splits)

lemma training_Compile:
  "Compile l opt ms \<in> set (trace (fst (training en path swn swnc tg vg n cbs w))) \<longleftrightarrow>
     Compile l opt ms \<in> set (trace w)"
  by (auto simp: training_def Let_def print_time_def split: option.splits sum.splits)

lemma compiling_Compile:
  "Compile l opt ms \<in> set (trace (fst (compiling en path swn swnc fixed lf tg vg lr n md metric w))) \<longleftrightarrow>
     Compile l opt ms \<in> set (trace w) \<or>
     ((\<exists>bv. resolve_metrics md metric = Inr (bv, ms)) \<and> l = lf \<and>
      opt = Adam lr (9 / 10) (999 / 1000) (1 / 100000000) 0)"
  by (auto simp: compiling_def Let_def training_Compile split: option.splits sum.splits)

lemma compiling_Fit:
  "Fit a \<in> set (trace (fst (compiling en path swn swnc fixed lf tg vg lr n md metric w))) \<longleftrightarrow>
     Fit a \<in> set (trace w) \<or>
     (compile_raises en = None \<and>
      (\<exists>bv nm. resolve_metrics md metric = Inr (Some bv, nm) \<and>
         a = fit_call tg vg n [early_stop metric bv, checkpoint swn metric bv,
                               warm_up_lr lr tg n, tensorboard_callback]))"
  by (auto simp: compiling_def Let_def training_Fit create_callbacks_def
      split: option.splits sum.splits)

subsection \<open>The whole function\<close>

lemma train_makedirs_raises:
  "makedirs_raises en = Some e \<Longrightarrow>
   train en model lf tg vg lr n pf ftl md metric =
     (\<lparr>the_model = model,
       trace = [Print [PStr (''Current training session folder is '' @ path_join pf (train_date en))],
                MakeDirs (path_join pf (train_date en))]\<rparr>, Inl e)"
  by (simp add: train_def Let_def emit_def)

lemma train_makedirs_ok:
  "makedirs_raises en = None \<Longrightarrow>
   train en model lf tg vg lr n pf ftl md metric =
     (case freeze_layers ftl
             \<lparr>the_model = model,
              trace = [Print [PStr (''Current training session folder is '' @ path_join pf (train_date en))],
                       MakeDirs (path_join pf (train_date en)),
                       Print [PStr [CHR 0x0A]]]\<rparr> of
        (w4, Inl e) \<Rightarrow> (w4, Inl e)
      | (w4, Inr fixed_layers) \<Rightarrow>
          compiling en (path_join pf (train_date en))
            (path_join (path_join pf (train_date en)) (model.name model @ ''_best_'' @ metric @ ''.h5''))
            (path_join (path_join pf (train_date en)) (model.name model @ ''_best_'' @ metric @ ''_ctrlc.h5''))
            fixed_layers lf tg vg lr n md metric w4)"
  by (simp add: train_def Let_def emit_def split: prod.splits sum.splits)

lemma the_model_train:
  "the_model (fst (train en model lf tg vg lr n pf ftl md metric)) =
     (if makedirs_raises en = None \<and> py_in ftl (map layer.name (layers model)) then
        model\<lparr>layers := fst (freeze_loop ftl (layers model))\<rparr>
      else model)"
proof (cases "makedirs_raises en")
  case None
  then show ?thesis
    by (simp add: train_makedirs_ok freeze_layers_def Let_def print_loop_model
        split: prod.splits)
next
  case (Some e)
  then show ?thesis by (simp add: train_makedirs_raises)
qed

lemma train_Compile:
  "Compile l opt ms \<in> set (trace (fst (train en model lf tg vg lr n pf ftl md metric))) \<longleftrightarrow>
     makedirs_raises en = None \<and> (py_in ftl (map layer.name (layers model)) \<or> \<not> truthy ftl) \<and>
     (\<exists>bv. resolve_metrics md metric = Inr (bv, ms)) \<and> l = lf \<and>
     opt = Adam lr (9 / 10) (999 / 1000) (1 / 100000000) 0"
proof (cases "makedirs_raises en")
  case None
  then show ?thesis
    by (auto simp: train_makedirs_ok freeze_layers_def Let_def print_loop_trace
        compiling_Compile prints_only_Compile split: prod.splits)
next
  case (Some e)
  then show ?thesis by (simp add: train_makedirs_raises)
qed

lemma train_Fit:
  "Fit a \<in> set (trace (fst (train en model lf tg vg lr n pf ftl md metric))) \<longleftrightarrow>
     makedirs_raises en = None \<and> (py_in ftl (map layer.name (layers model)) \<or> \<not> truthy ftl) \<and>
     compile_raises en = None \<and>
     (\<exists>bv nm. resolve_metrics md metric = Inr (Some bv, nm) \<and>
        a = fit_call tg vg n
              [early_stop metric bv,
               checkpoint (path_join (path_join pf (train_date en))
                             (model.name model @ ''_best_'' @ metric @ ''.h5'')) metric bv,
               warm_up_lr lr tg n, tensorboard_callback])"
proof (cases "makedirs_raises en")
  case None
  then show ?thesis
    by (auto simp: train_makedirs_ok freeze_layers_def Let_def print_loop_trace
        compiling_Fit prints_only_Fit split: prod.splits)
next
  case (Some e)
  then show ?thesis by (simp add: train_makedirs_raises)
qed


lemma freeze_loop_first_occurrence:
  "nm \<in> set (map layer.name ls) \<Longrightarrow>
   \<exists>k<length ls. layer.name (ls ! k) = nm \<and> (\<forall>i<k. layer.name (ls ! i) \<noteq> nm) \<and>
     fst (freeze_loop (PyStr nm) ls) = map (\<lambda>l. l\<lparr>trainable := False\<rparr>) (take k ls) @ drop k ls"
proof (induction ls)
  case Nil
  then show ?case by simp
next
  case (Cons l ls)
  show ?case
  proof (cases "layer.name l = nm")
    case True
    then have "0 < length (l # ls) \<and> layer.name ((l # ls) ! 0) = nm \<and>
        (\<forall>i<0. layer.name ((l # ls) ! i) \<noteq> nm) \<and>
        fst (freeze_loop (PyStr nm) (l # ls)) =
          map (\<lambda>l. l\<lparr>trainable := False\<rparr>) (take 0 (l # ls)) @ drop 0 (l # ls)"
      by simp
    then show ?thesis by blast
  next
    case False
    with Cons.prems have "nm \<in> set (map layer.name ls)" by auto
    from Cons.IH [OF this] obtain k where k: "k < length ls" "layer.name (ls ! k) = nm"
      "\<forall>i<k. layer.name (ls ! i) \<noteq> nm"
      "fst (freeze_loop (PyStr nm) ls) = map (\<lambda>l. l\<lparr>trainable := False\<rparr>) (take k ls) @ drop k ls"
      by blast
    have "\<forall>i<Suc k. layer.name ((l # ls) ! i) \<noteq> nm"
      using False k(3) by (auto simp: less_Suc_eq_0_disj)
    moreover have "fst (freeze_loop (PyStr nm) (l # ls)) =
        map (\<lambda>l. l\<lparr>trainable := False\<rparr>) (take (Suc k) (l # ls)) @ drop (Suc k) (l # ls)"
      using False k(4) by (simp add: case_prod_beta)
    ultimately have "Suc k < length (l # ls) \<and> layer.name ((l # ls) ! Suc k) = nm \<and>
        (\<forall>i<Suc k. layer.name ((l # ls) ! i) \<noteq> nm) \<and>
        fst (freeze_loop (PyStr nm) (l # ls)) =
          map (\<lambda>l. l\<lparr>trainable := False\<rparr>) (take (Suc k) (l # ls)) @ drop (Suc k) (l # ls)"
      using k(1,2) by simp
    then show ?thesis by blast
  qed
qed

lemma py_in_PyStr: "py_in (PyStr nm) names \<longleftrightarrow> nm \<in> set names"
  by (auto simp: py_in_def)

lemma py_in_falsy: "py_in f names \<Longrightarrow> \<not> truthy f \<Longrightarrow> f = PyStr []"
  by (cases f) (auto simp: py_in_def)

text \<open>
  Claim C1. When the session directory has been created and \<^verbatim>\<open>first_trainable_layer\<close> is a
  name that occurs among the layer names, then with \<open>k\<close> the position of its first occurrence
  the model is left with the same number of layers, every layer before \<open>k\<close> is the old one
  with \<^verbatim>\<open>trainable = False\<close>, and every layer from \<open>k\<close> on is exactly as it was (so a layer
  that was trainable still is). The layers are those of the model after the call, whether
  \<^verbatim>\<open>train\<close> goes on to return or to raise.
\<close>

theorem train_freezes_before_first_trainable:
  assumes "makedirs_raises en = None"
    and "nm \<in> set (map layer.name (layers model))"
  shows "\<exists>k<length (layers model).
           layer.name (layers model ! k) = nm \<and>
           (\<forall>i<k. layer.name (layers model ! i) \<noteq> nm) \<and>
           length (layers (the_model (fst (train en model lf tg vg lr n pf (PyStr nm) md metric))))
             = length (layers model) \<and>
           (\<forall>i<k. layers (the_model (fst (train en model lf tg vg lr n pf (PyStr nm) md metric))) ! i
                    = (layers model ! i)\<lparr>trainable := False\<rparr>) \<and>
           (\<forall>i. k \<le> i \<and> i < length (layers model) \<longrightarrow>
                layers (the_model (fst (train en model lf tg vg lr n pf (PyStr nm) md metric))) ! i
                  = layers model ! i)"
proof -
  from freeze_loop_first_occurrence [OF assms(2)] obtain k where k: "k < length (layers model)"
    "layer.name (layers model ! k) = nm" "\<forall>i<k. layer.name (layers model ! i) \<noteq> nm"
    "fst (freeze_loop (PyStr nm) (layers model)) =
       map (\<lambda>l. l\<lparr>trainable := False\<rparr>) (take k (layers model)) @ drop k (layers model)"
    by blast
  let ?ls = "layers (the_model (fst (train en model lf tg vg lr n pf (PyStr nm) md metric)))"
  have eq: "?ls = map (\<lambda>l. l\<lparr>trainable := False\<rparr>) (take k (layers model)) @ drop k (layers model)"
    using assms k(4) by (simp add: the_model_train py_in_PyStr)
  have len: "length ?ls = length (layers model)"
    using k(1) by (simp add: eq)
  have before: "\<forall>i<k. ?ls ! i = (layers model ! i)\<lparr>trainable := False\<rparr>"
    using k(1) by (simp add: eq nth_append)
  have after: "\<forall>i. k \<le> i \<and> i < length (layers model) \<longrightarrow> ?ls ! i = layers model ! i"
    using k(1) by (auto simp: eq nth_append min_def)
  from k(1,2,3) len before after show ?thesis by blast
qed


subsection \<open>The sample call, evaluated\<close>

lemma example_run:
  "train example_env example_model () \<lparr>len = 10\<rparr> \<lparr>len = 2\<rparr> (1 / 10000) 5 ''project''
     (PyStr ''conv_2'') example_metrics ''val_loss'' =
   (\<lparr>the_model =
       \<lparr>name = ''yolo'',
        layers = [\<lparr>layer.name = ''conv_1'', trainable = False\<rparr>,
                  \<lparr>layer.name = ''conv_2'', trainable = True\<rparr>,
                  \<lparr>layer.name = ''detection'', trainable = True\<rparr>]\<rparr>,
     trace =
       [Print [PStr ''Current training session folder is project/2020-01-31_12-00-00''],
        MakeDirs ''project/2020-01-31_12-00-00'',
        Print [PStr [CHR 0x0A]],
        Print [PStr ''The following layers do not update weights!!!''],
        Print [PStr ''    '', PStrList [''conv_1'']],
        Compile () (Adam (1 / 10000) (9 / 10) (999 / 1000) (1 / 100000000) 0) ''loss'',
        Summary,
        Fit \<lparr>x = \<lparr>len = 10\<rparr>, steps_per_epoch = 10, epochs = 5,
             validation_data = \<lparr>len = 2\<rparr>, validation_steps = 2,
             callbacks =
               [EarlyStopping ''val_loss'' (1 / 1000) 20 ''min'' 2 True,
                ModelCheckpoint ''project/2020-01-31_12-00-00/yolo_best_val_loss.h5''
                  ''val_loss'' 2 True ''min'' 1,
                WarmUpCosineDecayScheduler (1 / 10000) 50 0 30 0 1,
                TensorBoard ''logs'' 1],
             verbose = 1, workers = 4, max_queue_size = 10, use_multiprocessing = True\<rparr>,
        CopyTree ''logs'' ''project/2020-01-31_12-00-00/logs'',
        Print [PStr ''2-mins to train'']]\<rparr>,
    Inr ([\<lparr>layer.name = ''conv_1'', trainable = False\<rparr>,
          \<lparr>layer.name = ''conv_2'', trainable = True\<rparr>,
          \<lparr>layer.name = ''detection'', trainable = True\<rparr>],
         ''project/2020-01-31_12-00-00/yolo_best_val_loss.h5''))"
  by (simp add: train_def compiling_def training_def freeze_layers_def py_in_def
      resolve_metrics_def getitem_def create_callbacks_def path_join_def example_model_def
      example_env_def example_metrics_def emit_def print_time_125
      early_stop_def checkpoint_def warm_up_lr_def tensorboard_callback_def
      fit_call_def Let_def)

theorem train_freezes_before_first_trainable_witness:
  "makedirs_raises example_env = None
   \<and> ''conv_2'' \<in> set (map layer.name (layers example_model))
   \<and> (\<exists>k<length (layers example_model).
           layer.name (layers example_model ! k) = ''conv_2'' \<and>
           (\<forall>i<k. layer.name (layers example_model ! i) \<noteq> ''conv_2'') \<and>
           length (layers (the_model (fst (train example_env example_model () \<lparr>len = 10\<rparr>
                     \<lparr>len = 2\<rparr> (1 / 10000) 5 ''project'' (PyStr ''conv_2'') example_metrics
                     ''val_loss''))))
             = length (layers example_model) \<and>
           (\<forall>i<k. layers (the_model (fst (train example_env example_model () \<lparr>len = 10\<rparr>
                     \<lparr>len = 2\<rparr> (1 / 10000) 5 ''project'' (PyStr ''conv_2'') example_metrics
                     ''val_loss''))) ! i
                    = (layers example_model ! i)\<lparr>trainable := False\<rparr>) \<and>
           (\<forall>i. k \<le> i \<and> i < length (layers example_model) \<longrightarrow>
                layers (the_model (fst (train example_env example_model () \<lparr>len = 10\<rparr>
                     \<lparr>len = 2\<rparr> (1 / 10000) 5 ''project'' (PyStr ''conv_2'') example_metrics
                     ''val_loss''))) ! i
                  = layers example_model ! i))
   \<and> layers (the_model (fst (train example_env example_model () \<lparr>len = 10\<rparr>
                     \<lparr>len = 2\<rparr> (1 / 10000) 5 ''project'' (PyStr ''conv_2'') example_metrics
                     ''val_loss'')))
       = [\<lparr>layer.name = ''conv_1'', trainable = False\<rparr>,
          \<lparr>layer.name = ''conv_2'', trainable = True\<rparr>,
          \<lparr>layer.name = ''detection'', trainable = True\<rparr>]"
proof -
  have mk: "makedirs_raises example_env = None"
    by (simp add: example_env_def)
  have occ: "''conv_2'' \<in> set (map layer.name (layers example_model))"
    by (simp add: example_model_def)
  show ?thesis
    using mk occ
      train_freezes_before_first_trainable [OF mk occ, of "()" "\<lparr>len = 10\<rparr>" "\<lparr>len = 2\<rparr>"
        "1 / 10000" 5 "''project''" example_metrics "''val_loss''"]
    by (simp only: example_run fst_conv world.simps model.simps simp_thms)
qed

subsection \<open>A falsy first trainable layer\<close>

text \<open>
  Claim C9, as the code has it. When \<^verbatim>\<open>first_trainable_layer\<close> is \<^verbatim>\<open>None\<close>, or is otherwise
  falsy and is not the name of a layer, \<^verbatim>\<open>train\<close> leaves the model as it was: no layer's
  \<^verbatim>\<open>trainable\<close> flag changes, whatever the rest of the call does.
\<close>

theorem falsy_name_keeps_layers:
  assumes "first_trainable_layer = PyNone \<or>
           (\<not> truthy first_trainable_layer \<and>
            \<not> py_in first_trainable_layer (map layer.name (layers model)))"
  shows "the_model (fst (train en model lf tg vg lr n pf first_trainable_layer md metric)) = model"
proof -
  have "\<not> py_in first_trainable_layer (map layer.name (layers model))"
    using assms by (auto simp: py_in_def)
  then show ?thesis by (simp add: the_model_train)
qed

theorem falsy_name_keeps_layers_witness:
  "the_model (fst (train example_env example_model () \<lparr>len = 10\<rparr> \<lparr>len = 2\<rparr> (1 / 10000) 5
       ''project'' PyNone example_metrics ''val_loss'')) = example_model
   \<and> \<not> truthy (PyStr '''') \<and> \<not> py_in (PyStr '''') (map layer.name (layers example_model))
   \<and> the_model (fst (train example_env example_model () \<lparr>len = 10\<rparr> \<lparr>len = 2\<rparr> (1 / 10000) 5
       ''project'' (PyStr '''') example_metrics ''val_loss'')) = example_model"
proof -
  have h: "\<not> truthy (PyStr '''') \<and> \<not> py_in (PyStr '''') (map layer.name (layers example_model))"
    by (simp add: py_in_def example_model_def)
  show ?thesis
    using h
      falsy_name_keeps_layers [of PyNone example_model example_env "()" "\<lparr>len = 10\<rparr>"
        "\<lparr>len = 2\<rparr>" "1 / 10000" 5 "''project''" example_metrics "''val_loss''"]
      falsy_name_keeps_layers [of "PyStr ''''" example_model example_env "()" "\<lparr>len = 10\<rparr>"
        "\<lparr>len = 2\<rparr>" "1 / 10000" 5 "''project''" example_metrics "''val_loss''"]
    by simp
qed

text \<open>
  The membership test of line 50 comes before the truth test of line 56, so the empty string,
  which is falsy, still freezes when a layer bears the empty name: here the first layer was
  trainable and is not after the call.
\<close>

theorem empty_name_freezes_counterexample:
  "\<not> truthy (PyStr '''')
   \<and> trainable (layers \<lparr>name = ''yolo'',
                         layers = [\<lparr>layer.name = ''conv_1'', trainable = True\<rparr>,
                                   \<lparr>layer.name = '''', trainable = True\<rparr>]\<rparr> ! 0)
   \<and> \<not> trainable (layers (the_model (fst (train example_env
          \<lparr>name = ''yolo'',
           layers = [\<lparr>layer.name = ''conv_1'', trainable = True\<rparr>,
                     \<lparr>layer.name = '''', trainable = True\<rparr>]\<rparr>
          () \<lparr>len = 10\<rparr> \<lparr>len = 2\<rparr> (1 / 10000) 5 ''project'' (PyStr '''') example_metrics
          ''val_loss''))) ! 0)"
  by (simp add: the_model_train py_in_def example_env_def)


subsection \<open>An unknown first trainable layer\<close>

lemma train_unknown_layer:
  assumes "makedirs_raises en = None" and "truthy ftl"
    and "\<not> py_in ftl (map layer.name (layers model))"
  shows "snd (train en model lf tg vg lr n pf ftl md metric) =
           Inl (Exception ''First trainable layer specified in config file is not in the model'')"
    and "trace (fst (train en model lf tg vg lr n pf ftl md metric)) =
           [Print [PStr (''Current training session folder is '' @ path_join pf (train_date en))],
            MakeDirs (path_join pf (train_date en)),
            Print [PStr [CHR 0x0A]],
            Print [PStr ''First trainable layer specified in config file is not in the model. Did you mean one of these?'']]
           @ map (\<lambda>(i, l). Print [PInt (int i), PStr (layer.name l)]) (enumerate 0 (layers model))"
  using assms
  by (simp_all add: train_makedirs_ok freeze_layers_def Let_def print_loop_trace)

lemma train_raises_unknown_layer:
  assumes "truthy ftl" and "\<not> py_in ftl (map layer.name (layers model))"
  shows "\<exists>e. snd (train en model lf tg vg lr n pf ftl md metric) = Inl e"
proof (cases "makedirs_raises en")
  case None
  with assms show ?thesis by (simp add: train_unknown_layer)
next
  case (Some e)
  then show ?thesis by (simp add: train_makedirs_raises)
qed

text \<open>
  Claim C2. For a truthy \<^verbatim>\<open>first_trainable_layer\<close> that is not among the layer names,
  \<^verbatim>\<open>train\<close> always leaves with an exception and never calls \<^verbatim>\<open>model.compile\<close>; and once
  the session directory is created, the exception is the one of line 62 and the trace ends
  with the question of line 59 followed by one line per layer, its index and its name, in
  layer order.
\<close>

theorem unknown_layer_raises_before_compile:
  assumes "truthy first_trainable_layer"
    and "\<not> py_in first_trainable_layer (map layer.name (layers model))"
  shows "(\<exists>e. snd (train en model lf tg vg lr n pf first_trainable_layer md metric) = Inl e)
    \<and> (\<forall>l opt ms. Compile l opt ms
           \<notin> set (trace (fst (train en model lf tg vg lr n pf first_trainable_layer md metric))))
    \<and> (makedirs_raises en = None \<longrightarrow>
         snd (train en model lf tg vg lr n pf first_trainable_layer md metric) =
           Inl (Exception ''First trainable layer specified in config file is not in the model'')
       \<and> trace (fst (train en model lf tg vg lr n pf first_trainable_layer md metric)) =
           [Print [PStr (''Current training session folder is '' @ path_join pf (train_date en))],
            MakeDirs (path_join pf (train_date en)),
            Print [PStr [CHR 0x0A]],
            Print [PStr ''First trainable layer specified in config file is not in the model. Did you mean one of these?'']]
           @ map (\<lambda>(i, l). Print [PInt (int i), PStr (layer.name l)]) (enumerate 0 (layers model)))"
  using assms train_raises_unknown_layer [OF assms]
  by (simp add: train_Compile train_unknown_layer)

lemma unknown_run:
  "train example_env example_model () \<lparr>len = 10\<rparr> \<lparr>len = 2\<rparr> (1 / 10000) 5 ''project''
     (PyStr ''conv_9'') example_metrics ''val_loss'' =
   (\<lparr>the_model = example_model,
     trace =
       [Print [PStr ''Current training session folder is project/2020-01-31_12-00-00''],
        MakeDirs ''project/2020-01-31_12-00-00'',
        Print [PStr [CHR 0x0A]],
        Print [PStr ''First trainable layer specified in config file is not in the model. Did you mean one of these?''],
        Print [PInt 0, PStr ''conv_1''],
        Print [PInt 1, PStr ''conv_2''],
        Print [PInt 2, PStr ''detection'']]\<rparr>,
    Inl (Exception ''First trainable layer specified in config file is not in the model''))"
  by (simp add: train_def freeze_layers_def py_in_def path_join_def example_model_def
      example_env_def emit_def Let_def)

theorem unknown_layer_raises_before_compile_witness:
  "truthy (PyStr ''conv_9'')
   \<and> \<not> py_in (PyStr ''conv_9'') (map layer.name (layers example_model))
   \<and> makedirs_raises example_env = None
   \<and> snd (train example_env example_model () \<lparr>len = 10\<rparr> \<lparr>len = 2\<rparr> (1 / 10000) 5 ''project''
          (PyStr ''conv_9'') example_metrics ''val_loss'') =
        Inl (Exception ''First trainable layer specified in config file is not in the model'')
   \<and> trace (fst (train example_env example_model () \<lparr>len = 10\<rparr> \<lparr>len = 2\<rparr> (1 / 10000) 5
          ''project'' (PyStr ''conv_9'') example_metrics ''val_loss'')) =
       [Print [PStr ''Current training session folder is project/2020-01-31_12-00-00''],
        MakeDirs ''project/2020-01-31_12-00-00'',
        Print [PStr [CHR 0x0A]],
        Print [PStr ''First trainable layer specified in config file is not in the model. Did you mean one of these?''],
        Print [PInt 0, PStr ''conv_1''],
        Print [PInt 1, PStr ''conv_2''],
        Print [PInt 2, PStr ''detection'']]
   \<and> Compile () (Adam (1 / 10000) (9 / 10) (999 / 1000) (1 / 100000000) 0) ''loss''
       \<notin> set (trace (fst (train example_env example_model () \<lparr>len = 10\<rparr> \<lparr>len = 2\<rparr>
          (1 / 10000) 5 ''project'' (PyStr ''conv_9'') example_metrics ''val_loss'')))"
proof -
  have t: "truthy (PyStr ''conv_9'')" by simp
  have u: "\<not> py_in (PyStr ''conv_9'') (map layer.name (layers example_model))"
    by (simp add: py_in_def example_model_def)
  have mk: "makedirs_raises example_env = None"
    by (simp add: example_env_def)
  from unknown_layer_raises_before_compile [OF t u, of example_env "()" "\<lparr>len = 10\<rparr>"
      "\<lparr>len = 2\<rparr>" "1 / 10000" 5 "''project''" example_metrics "''val_loss''"]
  have "Compile () (Adam (1 / 10000) (9 / 10) (999 / 1000) (1 / 100000000) 0) ''loss''
       \<notin> set (trace (fst (train example_env example_model () \<lparr>len = 10\<rparr> \<lparr>len = 2\<rparr>
          (1 / 10000) 5 ''project'' (PyStr ''conv_9'') example_metrics ''val_loss'')))"
    by blast
  then show ?thesis
    using t u mk by (simp add: unknown_run)
qed

subsection \<open>A falsy metrics dictionary\<close>

lemma train_falsy_metrics:
  assumes "\<not> truthy_dict md"
  shows "snd (train en model lf tg vg lr n pf ftl md metric) =
     Inl (case makedirs_raises en of
            Some e \<Rightarrow> e
          | None \<Rightarrow>
             if py_in ftl (map layer.name (layers model)) \<or> \<not> truthy ftl then
               (case compile_raises en of
                  Some e \<Rightarrow> e
                | None \<Rightarrow> UnboundLocalError ''best_value'')
             else Exception ''First trainable layer specified in config file is not in the model'')"
proof (cases "makedirs_raises en")
  case None
  then show ?thesis
    using resolve_metrics_falsy [OF assms, of metric]
    by (auto simp: train_makedirs_ok freeze_layers_def Let_def compiling_def create_callbacks_def
        split: prod.splits option.splits)
next
  case (Some e)
  then show ?thesis by (simp add: train_makedirs_raises)
qed

text \<open>
  Claim C3. When \<^verbatim>\<open>metrics_dict\<close> is falsy (\<^verbatim>\<open>None\<close>, the default, or empty), the local
  \<^verbatim>\<open>best_value\<close> is never bound: \<^verbatim>\<open>train\<close> always leaves with an exception, \<^verbatim>\<open>model.fit\<close>
  is never called, and when the calls before the callbacks succeed the exception is the
  \<^verbatim>\<open>UnboundLocalError\<close> for \<^verbatim>\<open>best_value\<close>.
\<close>

theorem falsy_metrics_dict_never_fits:
  assumes "\<not> truthy_dict metrics_dict"
  shows "(\<exists>e. snd (train en model lf tg vg lr n pf ftl metrics_dict metric) = Inl e)
    \<and> (\<forall>a. Fit a \<notin> set (trace (fst (train en model lf tg vg lr n pf ftl metrics_dict metric))))
    \<and> (makedirs_raises en = None \<and> compile_raises en = None \<and>
         (py_in ftl (map layer.name (layers model)) \<or> \<not> truthy ftl) \<longrightarrow>
         snd (train en model lf tg vg lr n pf ftl metrics_dict metric) =
           Inl (UnboundLocalError ''best_value''))"
proof -
  have "\<forall>a. Fit a \<notin> set (trace (fst (train en model lf tg vg lr n pf ftl metrics_dict metric)))"
    using resolve_metrics_falsy [OF assms, of metric] by (simp add: train_Fit)
  then show ?thesis
    by (auto simp: train_falsy_metrics [OF assms])
qed


theorem falsy_metrics_dict_never_fits_witness:
  "\<not> truthy_dict None
   \<and> makedirs_raises example_env = None \<and> compile_raises example_env = None
   \<and> \<not> truthy PyNone
   \<and> snd (train example_env example_model () \<lparr>len = 10\<rparr> \<lparr>len = 2\<rparr> (1 / 10000) 300 ''project''
          PyNone None ''val_loss'') = Inl (UnboundLocalError ''best_value'')
   \<and> Fit (fit_call \<lparr>len = 10\<rparr> \<lparr>len = 2\<rparr> 300 [])
       \<notin> set (trace (fst (train example_env example_model () \<lparr>len = 10\<rparr> \<lparr>len = 2\<rparr>
          (1 / 10000) 300 ''project'' PyNone None ''val_loss'')))"
proof -
  have f: "\<not> truthy_dict (None :: string dict dict option)" by simp
  have ok: "makedirs_raises example_env = None \<and> compile_raises example_env = None \<and>
      (py_in PyNone (map layer.name (layers example_model)) \<or> \<not> truthy PyNone)"
    by (simp add: example_env_def)
  from falsy_metrics_dict_never_fits [OF f, of example_env example_model "()" "\<lparr>len = 10\<rparr>"
      "\<lparr>len = 2\<rparr>" "1 / 10000" 300 "''project''" PyNone "''val_loss''"] ok
  show ?thesis by simp
qed

subsection \<open>Runs that reach \<^verbatim>\<open>model.fit\<close>\<close>

lemma train_at_fit:
  assumes "makedirs_raises en = None"
    and "py_in ftl (map layer.name (layers model)) \<or> \<not> truthy ftl"
    and "compile_raises en = None"
    and "resolve_metrics md metric = Inr (Some bv, nm)"
  shows "\<exists>w. train en model lf tg vg lr n pf ftl md metric =
           training en (path_join pf (train_date en))
             (path_join (path_join pf (train_date en)) (model.name model @ ''_best_'' @ metric @ ''.h5''))
             (path_join (path_join pf (train_date en)) (model.name model @ ''_best_'' @ metric @ ''_ctrlc.h5''))
             tg vg n
             [early_stop metric bv,
              checkpoint (path_join (path_join pf (train_date en))
                            (model.name model @ ''_best_'' @ metric @ ''.h5'')) metric bv,
              warm_up_lr lr tg n, tensorboard_callback] w
         \<and> (\<forall>a. Fit a \<notin> set (trace w))"
  using assms
  by (auto simp: train_makedirs_ok freeze_layers_def Let_def compiling_def create_callbacks_def
      split: prod.splits)

lemma train_Inr:
  assumes "snd (train en model lf tg vg lr n pf ftl md metric) = Inr r"
  shows "makedirs_raises en = None \<and> (py_in ftl (map layer.name (layers model)) \<or> \<not> truthy ftl)
     \<and> compile_raises en = None \<and> (\<exists>bv nm. resolve_metrics md metric = Inr (Some bv, nm))"
proof (cases "makedirs_raises en")
  case None
  with assms show ?thesis
    by (auto simp: train_makedirs_ok freeze_layers_def Let_def compiling_def create_callbacks_def
        split: prod.splits option.splits sum.splits if_splits)
next
  case (Some e)
  with assms show ?thesis by (simp add: train_makedirs_raises)
qed

lemma training_interrupted:
  assumes "fit_raises en = Some KeyboardInterrupt"
  shows "trace (fst (training en path swn swnc tg vg n cbs w)) =
           trace w @ [Fit (fit_call tg vg n cbs), Print [PStr ''Saving model and copying logs''],
                      Save swnc True False]
             @ (if save_raises en = None then [CopyTree ''logs'' (path_join path ''logs'')] else [])"
    and "snd (training en path swn swnc tg vg n cbs w) =
           (case save_raises en of
              Some e \<Rightarrow> Inl e
            | None \<Rightarrow>
               (case copytree_raises en of
                  Some e \<Rightarrow> Inl e
                | None \<Rightarrow> Inr (layers (the_model w), swnc)))"
  using assms by (simp_all add: training_def Let_def split: option.splits)

lemma training_completed:
  assumes "fit_raises en = None"
  shows "\<exists>rest. trace (fst (training en path swn swnc tg vg n cbs w)) =
           trace w @ [Fit (fit_call tg vg n cbs), CopyTree ''logs'' (path_join path ''logs'')] @ rest"
    and "copytree_raises en = Some e \<Longrightarrow> snd (training en path swn swnc tg vg n cbs w) = Inl e"
    and "copytree_raises en = None \<Longrightarrow> 60 \<le> process_time en \<Longrightarrow> process_time en < 2 ^ 1024 \<Longrightarrow>
         snd (training en path swn swnc tg vg n cbs w) = Inr (layers (the_model w), swn)"
proof -
  show "\<exists>rest. trace (fst (training en path swn swnc tg vg n cbs w)) =
           trace w @ [Fit (fit_call tg vg n cbs), CopyTree ''logs'' (path_join path ''logs'')] @ rest"
    using assms
    by (auto simp: training_def Let_def print_time_def split: option.splits sum.splits)
  show "snd (training en path swn swnc tg vg n cbs w) = Inl e" if "copytree_raises en = Some e"
    using assms that by (simp add: training_def Let_def)
  show "snd (training en path swn swnc tg vg n cbs w) = Inr (layers (the_model w), swn)"
    if "copytree_raises en = None" "60 \<le> process_time en" "process_time en < 2 ^ 1024"
  proof -
    from print_time_mins_float [OF that(2,3)] obtain q where
      "print_time (FloatNum (Finite (process_time en)))
         (emit (CopyTree ''logs'' (path_join path ''logs'')) (emit (Fit (fit_call tg vg n cbs)) w)) =
       (emit (Print [PStr (format_d (truncate q) @ ''-mins to train'')])
          (emit (CopyTree ''logs'' (path_join path ''logs'')) (emit (Fit (fit_call tg vg n cbs)) w)),
        Inr ())"
      by blast
    then show ?thesis
      using assms that(1) by (simp add: training_def Let_def)
  qed
qed

lemma training_Inr:
  assumes "snd (training en path swn swnc tg vg n cbs w) = Inr (ls, p)"
  shows "ls = layers (the_model w)
    \<and> CopyTree ''logs'' (path_join path ''logs'') \<in> set (trace (fst (training en path swn swnc tg vg n cbs w)))
    \<and> copytree_raises en = None
    \<and> (fit_raises en = None \<and> p = swn \<or>
        fit_raises en = Some KeyboardInterrupt \<and> save_raises en = None \<and> p = swnc)"
  using assms
  by (auto simp: training_def Let_def print_time_def split: option.splits if_splits sum.splits)

lemma path_join_suffix: "\<exists>pre. path_join a b = pre @ b"
  by (auto simp: path_join_def intro: exI [of _ "[]"])

lemma path_join_plain:
  "a \<noteq> [] \<Longrightarrow> last a \<noteq> CHR ''/'' \<Longrightarrow> b = [] \<or> hd b \<noteq> CHR ''/'' \<Longrightarrow>
   path_join a b = a @ ''/'' @ b"
  by (auto simp: path_join_def)

lemma session_file_plain:
  assumes "pf \<noteq> []" and "last pf \<noteq> CHR ''/''"
    and "ts \<noteq> []" and "CHR ''/'' \<notin> set ts"
    and "nm = [] \<or> hd nm \<noteq> CHR ''/''"
  shows "path_join (path_join pf ts) (nm @ ''_best_'' @ rest) =
           pf @ ''/'' @ ts @ ''/'' @ nm @ ''_best_'' @ rest"
proof -
  have hd_ts: "hd ts \<noteq> CHR ''/''"
    using assms(3,4) by (metis hd_in_set)
  have last_ts: "last ts \<noteq> CHR ''/''"
    using assms(3,4) by (metis last_in_set)
  have p: "path_join pf ts = pf @ ''/'' @ ts"
    using assms(1,2) hd_ts by (simp add: path_join_plain)
  have "hd (nm @ ''_best_'' @ rest) \<noteq> CHR ''/''"
    using assms(5) by (cases nm) auto
  moreover have "pf @ ''/'' @ ts \<noteq> []" "last (pf @ ''/'' @ ts) \<noteq> CHR ''/''"
    using assms(3) last_ts by simp_all
  ultimately show ?thesis
    unfolding p by (simp add: path_join_plain)
qed

subsection \<open>The interrupt handler\<close>

text \<open>The sample call again, with \<^verbatim>\<open>fit\<close> interrupted from the keyboard.\<close>

lemma interrupted_run:
  "train (example_env\<lparr>fit_raises := Some KeyboardInterrupt\<rparr>) example_model () \<lparr>len = 10\<rparr>
     \<lparr>len = 2\<rparr> (1 / 10000) 5 ''project'' (PyStr ''conv_2'') example_metrics ''val_loss'' =
   (\<lparr>the_model =
       \<lparr>name = ''yolo'',
        layers = [\<lparr>layer.name = ''conv_1'', trainable = False\<rparr>,
                  \<lparr>layer.name = ''conv_2'', trainable = True\<rparr>,
                  \<lparr>layer.name = ''detection'', trainable = True\<rparr>]\<rparr>,
     trace =
       [Print [PStr ''Current training session folder is project/2020-01-31_12-00-00''],
        MakeDirs ''project/2020-01-31_12-00-00'',
        Print [PStr [CHR 0x0A]],
        Print [PStr ''The following layers do not update weights!!!''],
        Print [PStr ''    '', PStrList [''conv_1'']],
        Compile () (Adam (1 / 10000) (9 / 10) (999 / 1000) (1 / 100000000) 0) ''loss'',
        Summary,
        Fit \<lparr>x = \<lparr>len = 10\<rparr>, steps_per_epoch = 10, epochs = 5,
             validation_data = \<lparr>len = 2\<rparr>, validation_steps = 2,
             callbacks =
               [EarlyStopping ''val_loss'' (1 / 1000) 20 ''min'' 2 True,
                ModelCheckpoint ''project/2020-01-31_12-00-00/yolo_best_val_loss.h5''
                  ''val_loss'' 2 True ''min'' 1,
                WarmUpCosineDecayScheduler (1 / 10000) 50 0 30 0 1,
                TensorBoard ''logs'' 1],
             verbose = 1, workers = 4, max_queue_size = 10, use_multiprocessing = True\<rparr>,
        Print [PStr ''Saving model and copying logs''],
        Save ''project/2020-01-31_12-00-00/yolo_best_val_loss_ctrlc.h5'' True False,
        CopyTree ''logs'' ''project/2020-01-31_12-00-00/logs'']\<rparr>,
    Inr ([\<lparr>layer.name = ''conv_1'', trainable = False\<rparr>,
          \<lparr>layer.name = ''conv_2'', trainable = True\<rparr>,
          \<lparr>layer.name = ''detection'', trainable = True\<rparr>],
         ''project/2020-01-31_12-00-00/yolo_best_val_loss_ctrlc.h5''))"
  by (simp add: train_def compiling_def training_def freeze_layers_def py_in_def
      resolve_metrics_def getitem_def create_callbacks_def path_join_def example_model_def
      example_env_def example_metrics_def emit_def
      early_stop_def checkpoint_def warm_up_lr_def tensorboard_callback_def
      fit_call_def Let_def)

text \<open>
  Claim C4, as the code has it. On a run that calls \<^verbatim>\<open>model.fit\<close> and gets
  \<^verbatim>\<open>KeyboardInterrupt\<close> from it,
  the trace goes on after the \<^verbatim>\<open>fit\<close> call with the message, the \<^verbatim>\<open>save\<close> to the interrupt
  path with \<^verbatim>\<open>overwrite=True\<close> and \<^verbatim>\<open>include_optimizer=False\<close> and, once \<^verbatim>\<open>save\<close> has
  returned, the copy of \<^verbatim>\<open>logs\<close> into the session folder, and nothing more. When \<^verbatim>\<open>save\<close>
  and \<^verbatim>\<open>copytree\<close> return, \<^verbatim>\<open>train\<close> returns the model's layers and the interrupt path;
  an exception can leave \<^verbatim>\<open>train\<close> only if \<^verbatim>\<open>save\<close> or \<^verbatim>\<open>copytree\<close> raised it, so the
  interrupt of \<^verbatim>\<open>fit\<close> is not raised again. The interrupt path ends in \<^verbatim>\<open>_ctrlc.h5\<close>.
\<close>

theorem keyboard_interrupt_saves_and_returns:
  assumes "Fit a \<in> set (trace (fst (train en model lf tg vg lr n pf ftl md metric)))"
    and "fit_raises en = Some KeyboardInterrupt"
  shows "(\<exists>pre. trace (fst (train en model lf tg vg lr n pf ftl md metric)) =
            pre @ [Fit a, Print [PStr ''Saving model and copying logs''],
                   Save (path_join (path_join pf (train_date en))
                           (model.name model @ ''_best_'' @ metric @ ''_ctrlc.h5'')) True False]
              @ (if save_raises en = None
                 then [CopyTree ''logs'' (path_join (path_join pf (train_date en)) ''logs'')]
                 else []))
    \<and> (save_raises en = None \<and> copytree_raises en = None \<longrightarrow>
         snd (train en model lf tg vg lr n pf ftl md metric) =
           Inr (layers (the_model (fst (train en model lf tg vg lr n pf ftl md metric))),
                path_join (path_join pf (train_date en))
                  (model.name model @ ''_best_'' @ metric @ ''_ctrlc.h5'')))
    \<and> (\<forall>e. snd (train en model lf tg vg lr n pf ftl md metric) = Inl e \<longrightarrow>
           save_raises en = Some e \<or> (save_raises en = None \<and> copytree_raises en = Some e))
    \<and> (\<exists>pre. path_join (path_join pf (train_date en))
                 (model.name model @ ''_best_'' @ metric @ ''_ctrlc.h5'') = pre @ ''_ctrlc.h5'')"
proof -
  from assms(1) obtain bv nm where ok: "makedirs_raises en = None"
      "py_in ftl (map layer.name (layers model)) \<or> \<not> truthy ftl" "compile_raises en = None"
      "resolve_metrics md metric = Inr (Some bv, nm)"
    and a: "a = fit_call tg vg n
              [early_stop metric bv,
               checkpoint (path_join (path_join pf (train_date en))
                             (model.name model @ ''_best_'' @ metric @ ''.h5'')) metric bv,
               warm_up_lr lr tg n, tensorboard_callback]"
    unfolding train_Fit by blast
  from train_at_fit [OF ok, of lf tg vg lr n pf] obtain w where
    w: "train en model lf tg vg lr n pf ftl md metric =
           training en (path_join pf (train_date en))
             (path_join (path_join pf (train_date en)) (model.name model @ ''_best_'' @ metric @ ''.h5''))
             (path_join (path_join pf (train_date en)) (model.name model @ ''_best_'' @ metric @ ''_ctrlc.h5''))
             tg vg n
             [early_stop metric bv,
              checkpoint (path_join (path_join pf (train_date en))
                            (model.name model @ ''_best_'' @ metric @ ''.h5'')) metric bv,
              warm_up_lr lr tg n, tensorboard_callback] w"
    by blast
  have tr: "trace (fst (train en model lf tg vg lr n pf ftl md metric)) =
            trace w @ [Fit a, Print [PStr ''Saving model and copying logs''],
                   Save (path_join (path_join pf (train_date en))
                           (model.name model @ ''_best_'' @ metric @ ''_ctrlc.h5'')) True False]
              @ (if save_raises en = None
                 then [CopyTree ''logs'' (path_join (path_join pf (train_date en)) ''logs'')]
                 else [])"
    unfolding w a by (rule training_interrupted(1) [OF assms(2)])
  have res: "snd (train en model lf tg vg lr n pf ftl md metric) =
           (case save_raises en of
              Some e \<Rightarrow> Inl e
            | None \<Rightarrow>
               (case copytree_raises en of
                  Some e \<Rightarrow> Inl e
                | None \<Rightarrow> Inr (layers (the_model w),
                    path_join (path_join pf (train_date en))
                      (model.name model @ ''_best_'' @ metric @ ''_ctrlc.h5''))))"
    unfolding w by (rule training_interrupted(2) [OF assms(2)])
  have m: "the_model (fst (train en model lf tg vg lr n pf ftl md metric)) = the_model w"
    unfolding w by simp
  have suf: "\<exists>pre. path_join (path_join pf (train_date en))
                 (model.name model @ ''_best_'' @ metric @ ''_ctrlc.h5'') = pre @ ''_ctrlc.h5''"
  proof -
    from path_join_suffix obtain pre where
      "path_join (path_join pf (train_date en))
         (model.name model @ ''_best_'' @ metric @ ''_ctrlc.h5'') =
       pre @ (model.name model @ ''_best_'' @ metric @ ''_ctrlc.h5'')"
      by blast
    then have "path_join (path_join pf (train_date en))
         (model.name model @ ''_best_'' @ metric @ ''_ctrlc.h5'') =
       (pre @ model.name model @ ''_best_'' @ metric) @ ''_ctrlc.h5''"
      by simp
    then show ?thesis by blast
  qed
  have "\<exists>pre. trace (fst (train en model lf tg vg lr n pf ftl md metric)) =
            pre @ [Fit a, Print [PStr ''Saving model and copying logs''],
                   Save (path_join (path_join pf (train_date en))
                           (model.name model @ ''_best_'' @ metric @ ''_ctrlc.h5'')) True False]
              @ (if save_raises en = None
                 then [CopyTree ''logs'' (path_join (path_join pf (train_date en)) ''logs'')]
                 else [])"
    using tr by blast
  moreover have "save_raises en = None \<and> copytree_raises en = None \<longrightarrow>
         snd (train en model lf tg vg lr n pf ftl md metric) =
           Inr (layers (the_model (fst (train en model lf tg vg lr n pf ftl md metric))),
                path_join (path_join pf (train_date en))
                  (model.name model @ ''_best_'' @ metric @ ''_ctrlc.h5''))"
    by (simp add: res m)
  moreover have "\<forall>e. snd (train en model lf tg vg lr n pf ftl md metric) = Inl e \<longrightarrow>
           save_raises en = Some e \<or> (save_raises en = None \<and> copytree_raises en = Some e)"
    by (auto simp: res split: option.splits)
  ultimately show ?thesis using suf by blast
qed


theorem keyboard_interrupt_saves_and_returns_witness:
  "Fit (fit_call \<lparr>len = 10\<rparr> \<lparr>len = 2\<rparr> 5
          [early_stop ''val_loss'' ''min'',
           checkpoint ''project/2020-01-31_12-00-00/yolo_best_val_loss.h5'' ''val_loss'' ''min'',
           warm_up_lr (1 / 10000) \<lparr>len = 10\<rparr> 5, tensorboard_callback])
     \<in> set (trace (fst (train (example_env\<lparr>fit_raises := Some KeyboardInterrupt\<rparr>) example_model ()
          \<lparr>len = 10\<rparr> \<lparr>len = 2\<rparr> (1 / 10000) 5 ''project'' (PyStr ''conv_2'') example_metrics
          ''val_loss'')))
   \<and> fit_raises (example_env\<lparr>fit_raises := Some KeyboardInterrupt\<rparr>) = Some KeyboardInterrupt
   \<and> save_raises (example_env\<lparr>fit_raises := Some KeyboardInterrupt\<rparr>) = None
   \<and> copytree_raises (example_env\<lparr>fit_raises := Some KeyboardInterrupt\<rparr>) = None
   \<and> snd (train (example_env\<lparr>fit_raises := Some KeyboardInterrupt\<rparr>) example_model ()
          \<lparr>len = 10\<rparr> \<lparr>len = 2\<rparr> (1 / 10000) 5 ''project'' (PyStr ''conv_2'') example_metrics
          ''val_loss'') =
       Inr ([\<lparr>layer.name = ''conv_1'', trainable = False\<rparr>,
             \<lparr>layer.name = ''conv_2'', trainable = True\<rparr>,
             \<lparr>layer.name = ''detection'', trainable = True\<rparr>],
            ''project/2020-01-31_12-00-00/yolo_best_val_loss_ctrlc.h5'')"
proof -
  let ?en = "example_env\<lparr>fit_raises := Some KeyboardInterrupt\<rparr>"
  let ?a = "fit_call \<lparr>len = 10\<rparr> \<lparr>len = 2\<rparr> 5
          [early_stop ''val_loss'' ''min'',
           checkpoint ''project/2020-01-31_12-00-00/yolo_best_val_loss.h5'' ''val_loss'' ''min'',
           warm_up_lr (1 / 10000) \<lparr>len = 10\<rparr> 5, tensorboard_callback]"
  have reach: "Fit ?a \<in> set (trace (fst (train ?en example_model () \<lparr>len = 10\<rparr> \<lparr>len = 2\<rparr>
      (1 / 10000) 5 ''project'' (PyStr ''conv_2'') example_metrics ''val_loss'')))"
    by (simp add: interrupted_run fit_call_def early_stop_def checkpoint_def warm_up_lr_def
        tensorboard_callback_def)
  have intr: "fit_raises ?en = Some KeyboardInterrupt" by simp
  have ok: "save_raises ?en = None \<and> copytree_raises ?en = None"
    by (simp add: example_env_def)
  from keyboard_interrupt_saves_and_returns [OF reach intr] ok
  have "snd (train ?en example_model () \<lparr>len = 10\<rparr> \<lparr>len = 2\<rparr> (1 / 10000) 5 ''project''
          (PyStr ''conv_2'') example_metrics ''val_loss'') =
        Inr (layers (the_model (fst (train ?en example_model () \<lparr>len = 10\<rparr> \<lparr>len = 2\<rparr>
               (1 / 10000) 5 ''project'' (PyStr ''conv_2'') example_metrics ''val_loss''))),
             path_join (path_join ''project'' (train_date ?en))
               (model.name example_model @ ''_best_'' @ ''val_loss'' @ ''_ctrlc.h5''))"
    by blast
  moreover have "layers (the_model (fst (train ?en example_model () \<lparr>len = 10\<rparr> \<lparr>len = 2\<rparr>
               (1 / 10000) 5 ''project'' (PyStr ''conv_2'') example_metrics ''val_loss''))) =
       [\<lparr>layer.name = ''conv_1'', trainable = False\<rparr>,
        \<lparr>layer.name = ''conv_2'', trainable = True\<rparr>,
        \<lparr>layer.name = ''detection'', trainable = True\<rparr>]"
    by (simp add: interrupted_run)
  moreover have "path_join (path_join ''project'' (train_date ?en))
               (model.name example_model @ ''_best_'' @ ''val_loss'' @ ''_ctrlc.h5'') =
       ''project/2020-01-31_12-00-00/yolo_best_val_loss_ctrlc.h5''"
    by (simp add: path_join_def example_env_def example_model_def)
  ultimately show ?thesis
    using reach intr ok by simp
qed

text \<open>
  The handler does not guard its own calls. When \<^verbatim>\<open>shutil.copytree\<close> raises in it (the
  directory \<^verbatim>\<open>logs\<close> is missing, say), that exception leaves \<^verbatim>\<open>train\<close> and nothing is
  returned; when \<^verbatim>\<open>model.save\<close> raises, the copy is not even attempted.
\<close>

theorem interrupt_handler_raises_counterexample:
  "fit_raises (example_env\<lparr>fit_raises := Some KeyboardInterrupt,
                            copytree_raises := Some (OSError ''logs'')\<rparr>) = Some KeyboardInterrupt
   \<and> Fit (fit_call \<lparr>len = 10\<rparr> \<lparr>len = 2\<rparr> 5
          [early_stop ''val_loss'' ''min'',
           checkpoint ''project/2020-01-31_12-00-00/yolo_best_val_loss.h5'' ''val_loss'' ''min'',
           warm_up_lr (1 / 10000) \<lparr>len = 10\<rparr> 5, tensorboard_callback])
       \<in> set (trace (fst (train (example_env\<lparr>fit_raises := Some KeyboardInterrupt,
                                               copytree_raises := Some (OSError ''logs'')\<rparr>)
            example_model () \<lparr>len = 10\<rparr> \<lparr>len = 2\<rparr> (1 / 10000) 5 ''project'' (PyStr ''conv_2'')
            example_metrics ''val_loss'')))
   \<and> snd (train (example_env\<lparr>fit_raises := Some KeyboardInterrupt,
                               copytree_raises := Some (OSError ''logs'')\<rparr>)
          example_model () \<lparr>len = 10\<rparr> \<lparr>len = 2\<rparr> (1 / 10000) 5 ''project'' (PyStr ''conv_2'')
          example_metrics ''val_loss'') = Inl (OSError ''logs'')
   \<and> fit_raises (example_env\<lparr>fit_raises := Some KeyboardInterrupt,
                              save_raises := Some (OSError ''disk full'')\<rparr>) = Some KeyboardInterrupt
   \<and> CopyTree ''logs'' ''project/2020-01-31_12-00-00/logs''
       \<notin> set (trace (fst (train (example_env\<lparr>fit_raises := Some KeyboardInterrupt,
                                               save_raises := Some (OSError ''disk full'')\<rparr>)
            example_model () \<lparr>len = 10\<rparr> \<lparr>len = 2\<rparr> (1 / 10000) 5 ''project'' (PyStr ''conv_2'')
            example_metrics ''val_loss'')))
   \<and> snd (train (example_env\<lparr>fit_raises := Some KeyboardInterrupt,
                               save_raises := Some (OSError ''disk full'')\<rparr>)
          example_model () \<lparr>len = 10\<rparr> \<lparr>len = 2\<rparr> (1 / 10000) 5 ''project'' (PyStr ''conv_2'')
          example_metrics ''val_loss'') = Inl (OSError ''disk full'')"
  by (simp add: train_def compiling_def training_def freeze_layers_def py_in_def
      resolve_metrics_def getitem_def create_callbacks_def path_join_def example_model_def
      example_env_def example_metrics_def emit_def
      early_stop_def checkpoint_def warm_up_lr_def tensorboard_callback_def
      fit_call_def Let_def)

subsection \<open>The callbacks handed to \<^verbatim>\<open>fit\<close>\<close>

lemma resolve_metrics_Some:
  assumes "resolve_metrics (Some d) metric = Inr (bvo, ms)" and "truthy_dict (Some d)"
  shows "\<exists>entry bv. getitem d metric = Inr entry \<and> getitem entry ''best_value'' = Inr bv \<and>
           getitem entry ''name'' = Inr ms \<and> bvo = Some bv"
  using assms by (auto simp: resolve_metrics_def split: sum.splits)

lemma train_Fit_callbacks:
  assumes "Fit a \<in> set (trace (fst (train en model lf tg vg lr n pf ftl md metric)))"
  shows "\<exists>bv nm. resolve_metrics md metric = Inr (Some bv, nm) \<and>
           callbacks a =
             [EarlyStopping metric (1 / 1000) 20 bv 2 True,
              ModelCheckpoint (path_join (path_join pf (train_date en))
                                 (model.name model @ ''_best_'' @ metric @ ''.h5''))
                metric 2 True bv 1,
              WarmUpCosineDecayScheduler lr (int (len tg) * n) 0 (int (len tg) * min 3 (n - 1)) 0 1,
              TensorBoard ''logs'' 1]"
  using assms unfolding train_Fit
  by (auto simp: fit_call_def early_stop_def checkpoint_def warm_up_lr_def tensorboard_callback_def)

text \<open>
  Claim C5. Whenever \<^verbatim>\<open>fit\<close> is called, the third callback is the warm-up scheduler built
  with \<^verbatim>\<open>total_steps\<close> the length of the training generator times \<^verbatim>\<open>nb_epoch\<close> and
  \<^verbatim>\<open>warmup_steps\<close> that length times \<open>min 3 (nb_epoch - 1)\<close>, with base rate the learning
  rate, warm-up rate 0, no hold steps and verbosity 1; this is what \<open>warm_up_lr\<close> builds for
  every generator and epoch count. For 5 epochs of 10 steps it has 50 total steps and 30
  warm-up steps.
\<close>

theorem warm_up_steps:
  "(\<forall>a. Fit a \<in> set (trace (fst (train en model lf tg vg lr nb_epoch pf ftl md metric))) \<longrightarrow>
        callbacks a ! 2 =
          WarmUpCosineDecayScheduler lr (int (len tg) * nb_epoch) 0
            (int (len tg) * min 3 (nb_epoch - 1)) 0 1)
   \<and> warm_up_lr lr tg nb_epoch =
          WarmUpCosineDecayScheduler lr (int (len tg) * nb_epoch) 0
            (int (len tg) * min 3 (nb_epoch - 1)) 0 1
   \<and> warm_up_lr lr \<lparr>len = 10\<rparr> 5 = WarmUpCosineDecayScheduler lr 50 0 30 0 1"
proof -
  have "callbacks a ! 2 =
          WarmUpCosineDecayScheduler lr (int (len tg) * nb_epoch) 0
            (int (len tg) * min 3 (nb_epoch - 1)) 0 1"
    if "Fit a \<in> set (trace (fst (train en model lf tg vg lr nb_epoch pf ftl md metric)))" for a
    using train_Fit_callbacks [OF that] by auto
  then show ?thesis
    by (simp add: warm_up_lr_def)
qed

theorem warm_up_steps_witness:
  "Fit (fit_call \<lparr>len = 10\<rparr> \<lparr>len = 2\<rparr> 5
          [early_stop ''val_loss'' ''min'',
           checkpoint ''project/2020-01-31_12-00-00/yolo_best_val_loss.h5'' ''val_loss'' ''min'',
           warm_up_lr (1 / 10000) \<lparr>len = 10\<rparr> 5, tensorboard_callback])
     \<in> set (trace (fst (train example_env example_model () \<lparr>len = 10\<rparr> \<lparr>len = 2\<rparr> (1 / 10000) 5
          ''project'' (PyStr ''conv_2'') example_metrics ''val_loss'')))
   \<and> callbacks (fit_call \<lparr>len = 10\<rparr> \<lparr>len = 2\<rparr> 5
          [early_stop ''val_loss'' ''min'',
           checkpoint ''project/2020-01-31_12-00-00/yolo_best_val_loss.h5'' ''val_loss'' ''min'',
           warm_up_lr (1 / 10000) \<lparr>len = 10\<rparr> 5, tensorboard_callback]) ! 2 =
       WarmUpCosineDecayScheduler (1 / 10000) 50 0 30 0 1"
proof -
  let ?a = "fit_call \<lparr>len = 10\<rparr> \<lparr>len = 2\<rparr> 5
          [early_stop ''val_loss'' ''min'',
           checkpoint ''project/2020-01-31_12-00-00/yolo_best_val_loss.h5'' ''val_loss'' ''min'',
           warm_up_lr (1 / 10000) \<lparr>len = 10\<rparr> 5, tensorboard_callback]"
  have reach: "Fit ?a \<in> set (trace (fst (train example_env example_model () \<lparr>len = 10\<rparr>
      \<lparr>len = 2\<rparr> (1 / 10000) 5 ''project'' (PyStr ''conv_2'') example_metrics ''val_loss'')))"
    by (simp add: example_run fit_call_def early_stop_def checkpoint_def warm_up_lr_def
        tensorboard_callback_def)
  from warm_up_steps [of example_env example_model "()" "\<lparr>len = 10\<rparr>" "\<lparr>len = 2\<rparr>"
      "1 / 10000" 5 "''project''" "PyStr ''conv_2''" example_metrics "''val_loss''"] reach
  have "callbacks ?a ! 2 =
      WarmUpCosineDecayScheduler (1 / 10000) (int (len \<lparr>len = 10\<rparr>) * 5) 0
        (int (len \<lparr>len = 10\<rparr>) * min 3 (5 - 1)) 0 1"
    by blast
  then show ?thesis using reach by simp
qed


subsection \<open>Runs that return\<close>

text \<open>
  Claim C6. Whenever \<^verbatim>\<open>train\<close> returns a pair, the trace holds the copy of \<^verbatim>\<open>logs\<close> into
  the session folder, the first component is the layer list of the model as the call left
  it, and either \<^verbatim>\<open>fit\<close> completed and the second component is the best-weights path, or
  \<^verbatim>\<open>fit\<close> was interrupted and it is the interrupt path. The best-weights path is the join
  of the project folder, the date and \<^verbatim>\<open>model.name + "_best_" + metric + ".h5"\<close>; for a
  project folder that is not empty and has no trailing slash, a date that is not empty and
  holds no slash and a model name with no leading slash, that is the three joined by single
  slashes.
\<close>

theorem returning_runs_copy_logs:
  assumes "snd (train en model lf tg vg lr n pf ftl md metric) = Inr (ls, p)"
  shows "CopyTree ''logs'' (path_join (path_join pf (train_date en)) ''logs'')
           \<in> set (trace (fst (train en model lf tg vg lr n pf ftl md metric)))
    \<and> ls = layers (the_model (fst (train en model lf tg vg lr n pf ftl md metric)))
    \<and> (fit_raises en = None \<and>
         p = path_join (path_join pf (train_date en)) (model.name model @ ''_best_'' @ metric @ ''.h5'')
       \<or> fit_raises en = Some KeyboardInterrupt \<and>
         p = path_join (path_join pf (train_date en))
               (model.name model @ ''_best_'' @ metric @ ''_ctrlc.h5''))
    \<and> (pf \<noteq> [] \<and> last pf \<noteq> CHR ''/'' \<and> train_date en \<noteq> [] \<and>
         CHR ''/'' \<notin> set (train_date en) \<and>
         (model.name model = [] \<or> hd (model.name model) \<noteq> CHR ''/'') \<and> fit_raises en = None \<longrightarrow>
         p = pf @ ''/'' @ train_date en @ ''/'' @ model.name model @ ''_best_'' @ metric @ ''.h5'')"
proof -
  from train_Inr [OF assms] obtain bv nm where ok: "makedirs_raises en = None"
      "py_in ftl (map layer.name (layers model)) \<or> \<not> truthy ftl" "compile_raises en = None"
      "resolve_metrics md metric = Inr (Some bv, nm)"
    by blast
  from train_at_fit [OF ok, of lf tg vg lr n pf] obtain w where
    w: "train en model lf tg vg lr n pf ftl md metric =
           training en (path_join pf (train_date en))
             (path_join (path_join pf (train_date en)) (model.name model @ ''_best_'' @ metric @ ''.h5''))
             (path_join (path_join pf (train_date en)) (model.name model @ ''_best_'' @ metric @ ''_ctrlc.h5''))
             tg vg n
             [early_stop metric bv,
              checkpoint (path_join (path_join pf (train_date en))
                            (model.name model @ ''_best_'' @ metric @ ''.h5'')) metric bv,
              warm_up_lr lr tg n, tensorboard_callback] w"
    by blast
  have m: "the_model (fst (train en model lf tg vg lr n pf ftl md metric)) = the_model w"
    unfolding w by simp
  from assms have "snd (training en (path_join pf (train_date en))
             (path_join (path_join pf (train_date en)) (model.name model @ ''_best_'' @ metric @ ''.h5''))
             (path_join (path_join pf (train_date en)) (model.name model @ ''_best_'' @ metric @ ''_ctrlc.h5''))
             tg vg n
             [early_stop metric bv,
              checkpoint (path_join (path_join pf (train_date en))
                            (model.name model @ ''_best_'' @ metric @ ''.h5'')) metric bv,
              warm_up_lr lr tg n, tensorboard_callback] w) = Inr (ls, p)"
    unfolding w .
  from training_Inr [OF this]
  have r: "ls = layers (the_model w)"
    "CopyTree ''logs'' (path_join (path_join pf (train_date en)) ''logs'')
       \<in> set (trace (fst (train en model lf tg vg lr n pf ftl md metric)))"
    "fit_raises en = None \<and>
       p = path_join (path_join pf (train_date en)) (model.name model @ ''_best_'' @ metric @ ''.h5'')
     \<or> fit_raises en = Some KeyboardInterrupt \<and>
       p = path_join (path_join pf (train_date en))
             (model.name model @ ''_best_'' @ metric @ ''_ctrlc.h5'')"
    unfolding w by blast+
  have plain: "p = pf @ ''/'' @ train_date en @ ''/'' @ model.name model @ ''_best_'' @ metric @ ''.h5''"
    if "pf \<noteq> []" "last pf \<noteq> CHR ''/''" "train_date en \<noteq> []" "CHR ''/'' \<notin> set (train_date en)"
      "model.name model = [] \<or> hd (model.name model) \<noteq> CHR ''/''" "fit_raises en = None"
  proof -
    from r(3) that(6) have "p = path_join (path_join pf (train_date en))
        (model.name model @ ''_best_'' @ metric @ ''.h5'')"
      by auto
    then show ?thesis
      using session_file_plain [OF that(1-5), of "metric @ ''.h5''"] by simp
  qed
  from r m plain show ?thesis by auto
qed

theorem returning_runs_copy_logs_witness:
  "snd (train example_env example_model () \<lparr>len = 10\<rparr> \<lparr>len = 2\<rparr> (1 / 10000) 5 ''project''
          (PyStr ''conv_2'') example_metrics ''val_loss'') =
       Inr ([\<lparr>layer.name = ''conv_1'', trainable = False\<rparr>,
             \<lparr>layer.name = ''conv_2'', trainable = True\<rparr>,
             \<lparr>layer.name = ''detection'', trainable = True\<rparr>],
            ''project/2020-01-31_12-00-00/yolo_best_val_loss.h5'')
   \<and> CopyTree ''logs'' ''project/2020-01-31_12-00-00/logs''
       \<in> set (trace (fst (train example_env example_model () \<lparr>len = 10\<rparr> \<lparr>len = 2\<rparr> (1 / 10000) 5
            ''project'' (PyStr ''conv_2'') example_metrics ''val_loss'')))
   \<and> snd (train (example_env\<lparr>fit_raises := Some KeyboardInterrupt\<rparr>) example_model ()
          \<lparr>len = 10\<rparr> \<lparr>len = 2\<rparr> (1 / 10000) 5 ''project'' (PyStr ''conv_2'') example_metrics
          ''val_loss'') =
       Inr ([\<lparr>layer.name = ''conv_1'', trainable = False\<rparr>,
             \<lparr>layer.name = ''conv_2'', trainable = True\<rparr>,
             \<lparr>layer.name = ''detection'', trainable = True\<rparr>],
            ''project/2020-01-31_12-00-00/yolo_best_val_loss_ctrlc.h5'')
   \<and> CopyTree ''logs'' ''project/2020-01-31_12-00-00/logs''
       \<in> set (trace (fst (train (example_env\<lparr>fit_raises := Some KeyboardInterrupt\<rparr>) example_model ()
            \<lparr>len = 10\<rparr> \<lparr>len = 2\<rparr> (1 / 10000) 5 ''project'' (PyStr ''conv_2'') example_metrics
            ''val_loss'')))"
proof -
  let ?ls = "[\<lparr>layer.name = ''conv_1'', trainable = False\<rparr>,
              \<lparr>layer.name = ''conv_2'', trainable = True\<rparr>,
              \<lparr>layer.name = ''detection'', trainable = True\<rparr>]"
  have fin: "snd (train example_env example_model () \<lparr>len = 10\<rparr> \<lparr>len = 2\<rparr> (1 / 10000) 5
      ''project'' (PyStr ''conv_2'') example_metrics ''val_loss'') =
      Inr (?ls, ''project/2020-01-31_12-00-00/yolo_best_val_loss.h5'')"
    by (simp add: example_run)
  have intr: "snd (train (example_env\<lparr>fit_raises := Some KeyboardInterrupt\<rparr>) example_model ()
      \<lparr>len = 10\<rparr> \<lparr>len = 2\<rparr> (1 / 10000) 5 ''project'' (PyStr ''conv_2'') example_metrics
      ''val_loss'') = Inr (?ls, ''project/2020-01-31_12-00-00/yolo_best_val_loss_ctrlc.h5'')"
    by (simp add: interrupted_run)
  have p: "path_join (path_join ''project'' (train_date example_env)) ''logs'' =
      ''project/2020-01-31_12-00-00/logs''"
    "path_join (path_join ''project'' (train_date (example_env\<lparr>fit_raises := Some KeyboardInterrupt\<rparr>)))
       ''logs'' = ''project/2020-01-31_12-00-00/logs''"
    by (simp_all add: path_join_def example_env_def)
  from returning_runs_copy_logs [OF fin] returning_runs_copy_logs [OF intr] fin intr
  show ?thesis
    unfolding p by blast
qed


subsection \<open>The callback list\<close>

text \<open>
  Claim C8. Whenever \<^verbatim>\<open>fit\<close> is called, its callback list has exactly four entries, in this
  order: early stopping on the monitored metric with \<^verbatim>\<open>min_delta\<close> 0.001, patience 20,
  verbosity 2 and \<^verbatim>\<open>restore_best_weights=True\<close>; the checkpoint to the best-weights path with
  \<^verbatim>\<open>save_best_only=True\<close>; the warm-up cosine scheduler; and TensorBoard on the directory
  \<^verbatim>\<open>logs\<close>. The mode of the first two is the resolved \<^verbatim>\<open>best_value\<close>. The
  \<^verbatim>\<open>ReduceLROnPlateau\<close> object that \<^verbatim>\<open>train\<close> builds is not in the list, nor is any other
  object of that class.
\<close>

theorem fit_gets_four_callbacks:
  "\<forall>a. Fit a \<in> set (trace (fst (train en model lf tg vg lr n pf ftl md metric))) \<longrightarrow>
     (\<exists>bv nm. resolve_metrics md metric = Inr (Some bv, nm) \<and>
        callbacks a =
          [EarlyStopping metric (1 / 1000) 20 bv 2 True,
           ModelCheckpoint (path_join (path_join pf (train_date en))
                              (model.name model @ ''_best_'' @ metric @ ''.h5''))
             metric 2 True bv 1,
           WarmUpCosineDecayScheduler lr (int (len tg) * n) 0 (int (len tg) * min 3 (n - 1)) 0 1,
           TensorBoard ''logs'' 1])
     \<and> length (callbacks a) = 4
     \<and> (\<forall>bv. reduce_lr metric bv \<notin> set (callbacks a))
     \<and> (\<forall>mon factor patience min_lr mode verb.
           ReduceLROnPlateau mon factor patience min_lr mode verb \<notin> set (callbacks a))"
proof (intro allI impI)
  fix a
  assume "Fit a \<in> set (trace (fst (train en model lf tg vg lr n pf ftl md metric)))"
  from train_Fit_callbacks [OF this] obtain bv nm where
    r: "resolve_metrics md metric = Inr (Some bv, nm)"
    and c: "callbacks a =
          [EarlyStopping metric (1 / 1000) 20 bv 2 True,
           ModelCheckpoint (path_join (path_join pf (train_date en))
                              (model.name model @ ''_best_'' @ metric @ ''.h5''))
             metric 2 True bv 1,
           WarmUpCosineDecayScheduler lr (int (len tg) * n) 0 (int (len tg) * min 3 (n - 1)) 0 1,
           TensorBoard ''logs'' 1]"
    by blast
  have "length (callbacks a) = 4"
    by (simp add: c)
  moreover have "\<forall>bv. reduce_lr metric bv \<notin> set (callbacks a)"
    by (simp add: c reduce_lr_def)
  moreover have "\<forall>mon factor patience min_lr mode verb.
           ReduceLROnPlateau mon factor patience min_lr mode verb \<notin> set (callbacks a)"
    by (simp add: c)
  ultimately show "(\<exists>bv nm. resolve_metrics md metric = Inr (Some bv, nm) \<and>
        callbacks a =
          [EarlyStopping metric (1 / 1000) 20 bv 2 True,
           ModelCheckpoint (path_join (path_join pf (train_date en))
                              (model.name model @ ''_best_'' @ metric @ ''.h5''))
             metric 2 True bv 1,
           WarmUpCosineDecayScheduler lr (int (len tg) * n) 0 (int (len tg) * min 3 (n - 1)) 0 1,
           TensorBoard ''logs'' 1])
     \<and> length (callbacks a) = 4
     \<and> (\<forall>bv. reduce_lr metric bv \<notin> set (callbacks a))
     \<and> (\<forall>mon factor patience min_lr mode verb.
           ReduceLROnPlateau mon factor patience min_lr mode verb \<notin> set (callbacks a))"
    using r c by blast
qed

theorem fit_gets_four_callbacks_witness:
  "Fit (fit_call \<lparr>len = 10\<rparr> \<lparr>len = 2\<rparr> 5
          [early_stop ''val_loss'' ''min'',
           checkpoint ''project/2020-01-31_12-00-00/yolo_best_val_loss.h5'' ''val_loss'' ''min'',
           warm_up_lr (1 / 10000) \<lparr>len = 10\<rparr> 5, tensorboard_callback])
     \<in> set (trace (fst (train example_env example_model () \<lparr>len = 10\<rparr> \<lparr>len = 2\<rparr> (1 / 10000) 5
          ''project'' (PyStr ''conv_2'') example_metrics ''val_loss'')))
   \<and> length (callbacks (fit_call \<lparr>len = 10\<rparr> \<lparr>len = 2\<rparr> 5
          [early_stop ''val_loss'' ''min'',
           checkpoint ''project/2020-01-31_12-00-00/yolo_best_val_loss.h5'' ''val_loss'' ''min'',
           warm_up_lr (1 / 10000) \<lparr>len = 10\<rparr> 5, tensorboard_callback])) = 4
   \<and> reduce_lr ''val_loss'' ''min''
       \<notin> set (callbacks (fit_call \<lparr>len = 10\<rparr> \<lparr>len = 2\<rparr> 5
          [early_stop ''val_loss'' ''min'',
           checkpoint ''project/2020-01-31_12-00-00/yolo_best_val_loss.h5'' ''val_loss'' ''min'',
           warm_up_lr (1 / 10000) \<lparr>len = 10\<rparr> 5, tensorboard_callback]))"
proof -
  let ?a = "fit_call \<lparr>len = 10\<rparr> \<lparr>len = 2\<rparr> 5
          [early_stop ''val_loss'' ''min'',
           checkpoint ''project/2020-01-31_12-00-00/yolo_best_val_loss.h5'' ''val_loss'' ''min'',
           warm_up_lr (1 / 10000) \<lparr>len = 10\<rparr> 5, tensorboard_callback]"
  have reach: "Fit ?a \<in> set (trace (fst (train example_env example_model () \<lparr>len = 10\<rparr>
      \<lparr>len = 2\<rparr> (1 / 10000) 5 ''project'' (PyStr ''conv_2'') example_metrics ''val_loss'')))"
    by (simp add: example_run fit_call_def early_stop_def checkpoint_def warm_up_lr_def
        tensorboard_callback_def)
  from fit_gets_four_callbacks [of example_env example_model "()" "\<lparr>len = 10\<rparr>" "\<lparr>len = 2\<rparr>"
      "1 / 10000" 5 "''project''" "PyStr ''conv_2''" example_metrics "''val_loss''"] reach
  have "length (callbacks ?a) = 4 \<and> (\<forall>bv. reduce_lr ''val_loss'' bv \<notin> set (callbacks ?a))"
    by blast
  then show ?thesis using reach by blast
qed

subsection \<open>The metric name and the mode\<close>

lemma getitem_example:
  "getitem [(''val_loss'', [(''name'', ''loss''), (''best_value'', ''min'')])] ''val_loss'' =
     Inr [(''name'', ''loss''), (''best_value'', ''min'')]"
  "getitem [(''name'', ''loss''), (''best_value'', ''min'')] ''name'' = Inr ''loss''"
  "getitem [(''name'', ''loss''), (''best_value'', ''min'')] ''best_value'' = Inr ''min''"
  by (simp_all add: getitem_def)

text \<open>
  Claim C7. For a truthy \<^verbatim>\<open>metrics_dict\<close>: whenever \<^verbatim>\<open>train\<close> calls \<^verbatim>\<open>compile\<close>, the
  metrics argument is \<^verbatim>\<open>metrics_dict[metric]['name']\<close>; whenever it calls \<^verbatim>\<open>fit\<close>, the
  early-stopping and checkpoint callbacks have mode \<^verbatim>\<open>metrics_dict[metric]['best_value']\<close>;
  and when both entries exist, the session directory is created and the freeze step does
  not raise, \<^verbatim>\<open>compile\<close> is called, with the given loss and the Adam optimizer of line 69,
  and when \<^verbatim>\<open>compile\<close> returns as well, \<^verbatim>\<open>fit\<close> is called with the four callbacks, the
  first two in that mode.
  For a falsy \<^verbatim>\<open>metrics_dict\<close>, whenever \<^verbatim>\<open>compile\<close> is called its metrics argument is the
  monitor string \<^verbatim>\<open>metric\<close>, and it is called under the same two conditions.
\<close>

theorem metrics_and_mode_resolution:
  "(\<forall>d. metrics_dict = Some d \<and> truthy_dict metrics_dict \<longrightarrow>
      (\<forall>l opt ms. Compile l opt ms
             \<in> set (trace (fst (train en model lf tg vg lr n pf ftl metrics_dict metric))) \<longrightarrow>
           (\<exists>entry. getitem d metric = Inr entry \<and> getitem entry ''name'' = Inr ms))
    \<and> (\<forall>a. Fit a \<in> set (trace (fst (train en model lf tg vg lr n pf ftl metrics_dict metric))) \<longrightarrow>
           (\<exists>entry bv. getitem d metric = Inr entry \<and> getitem entry ''best_value'' = Inr bv \<and>
              callbacks a ! 0 = EarlyStopping metric (1 / 1000) 20 bv 2 True \<and>
              callbacks a ! 1 =
                ModelCheckpoint (path_join (path_join pf (train_date en))
                                   (model.name model @ ''_best_'' @ metric @ ''.h5''))
                  metric 2 True bv 1))
    \<and> (\<forall>entry bv nm.
           getitem d metric = Inr entry \<and> getitem entry ''best_value'' = Inr bv \<and>
           getitem entry ''name'' = Inr nm \<and> makedirs_raises en = None \<and>
           (py_in ftl (map layer.name (layers model)) \<or> \<not> truthy ftl) \<longrightarrow>
           Compile lf (Adam lr (9 / 10) (999 / 1000) (1 / 100000000) 0) nm
             \<in> set (trace (fst (train en model lf tg vg lr n pf ftl metrics_dict metric))))
    \<and> (\<forall>entry bv nm.
           getitem d metric = Inr entry \<and> getitem entry ''best_value'' = Inr bv \<and>
           getitem entry ''name'' = Inr nm \<and> makedirs_raises en = None \<and>
           (py_in ftl (map layer.name (layers model)) \<or> \<not> truthy ftl) \<and>
           compile_raises en = None \<longrightarrow>
           Fit (fit_call tg vg n
                  [EarlyStopping metric (1 / 1000) 20 bv 2 True,
                   ModelCheckpoint (path_join (path_join pf (train_date en))
                                      (model.name model @ ''_best_'' @ metric @ ''.h5''))
                     metric 2 True bv 1,
                   WarmUpCosineDecayScheduler lr (int (len tg) * n) 0
                     (int (len tg) * min 3 (n - 1)) 0 1,
                   TensorBoard ''logs'' 1])
             \<in> set (trace (fst (train en model lf tg vg lr n pf ftl metrics_dict metric)))))
   \<and> (\<not> truthy_dict metrics_dict \<longrightarrow>
      (\<forall>l opt ms. Compile l opt ms
             \<in> set (trace (fst (train en model lf tg vg lr n pf ftl metrics_dict metric))) \<longrightarrow>
           ms = metric)
    \<and> (makedirs_raises en = None \<and>
         (py_in ftl (map layer.name (layers model)) \<or> \<not> truthy ftl) \<longrightarrow>
         Compile lf (Adam lr (9 / 10) (999 / 1000) (1 / 100000000) 0) metric
           \<in> set (trace (fst (train en model lf tg vg lr n pf ftl metrics_dict metric)))))"
proof (intro conjI allI impI)
  fix d l opt ms
  assume d: "metrics_dict = Some d \<and> truthy_dict metrics_dict"
    and "Compile l opt ms \<in> set (trace (fst (train en model lf tg vg lr n pf ftl metrics_dict metric)))"
  then obtain bvo where "resolve_metrics (Some d) metric = Inr (bvo, ms)"
    unfolding train_Compile by blast
  from resolve_metrics_Some [OF this] d
  show "\<exists>entry. getitem d metric = Inr entry \<and> getitem entry ''name'' = Inr ms"
    by blast
next
  fix d a
  assume d: "metrics_dict = Some d \<and> truthy_dict metrics_dict"
    and "Fit a \<in> set (trace (fst (train en model lf tg vg lr n pf ftl metrics_dict metric)))"
  from train_Fit_callbacks [OF this(2)] obtain bv nm where
    r: "resolve_metrics metrics_dict metric = Inr (Some bv, nm)"
    and c: "callbacks a =
          [EarlyStopping metric (1 / 1000) 20 bv 2 True,
           ModelCheckpoint (path_join (path_join pf (train_date en))
                              (model.name model @ ''_best_'' @ metric @ ''.h5''))
             metric 2 True bv 1,
           WarmUpCosineDecayScheduler lr (int (len tg) * n) 0 (int (len tg) * min 3 (n - 1)) 0 1,
           TensorBoard ''logs'' 1]"
    by blast
  from r d have "resolve_metrics (Some d) metric = Inr (Some bv, nm)" by simp
  from resolve_metrics_Some [OF this] d obtain entry where
    "getitem d metric = Inr entry" "getitem entry ''best_value'' = Inr bv"
    by auto
  then show "\<exists>entry bv. getitem d metric = Inr entry \<and> getitem entry ''best_value'' = Inr bv \<and>
              callbacks a ! 0 = EarlyStopping metric (1 / 1000) 20 bv 2 True \<and>
              callbacks a ! 1 =
                ModelCheckpoint (path_join (path_join pf (train_date en))
                                   (model.name model @ ''_best_'' @ metric @ ''.h5''))
                  metric 2 True bv 1"
    by (auto simp: c)
next
  fix d entry bv nm
  assume d: "metrics_dict = Some d \<and> truthy_dict metrics_dict"
    and h: "getitem d metric = Inr entry \<and> getitem entry ''best_value'' = Inr bv \<and>
           getitem entry ''name'' = Inr nm \<and> makedirs_raises en = None \<and>
           (py_in ftl (map layer.name (layers model)) \<or> \<not> truthy ftl)"
  have "resolve_metrics metrics_dict metric = Inr (Some bv, nm)"
    using d h resolve_metrics_truthy [of d metric entry bv nm] by auto
  then show "Compile lf (Adam lr (9 / 10) (999 / 1000) (1 / 100000000) 0) nm
             \<in> set (trace (fst (train en model lf tg vg lr n pf ftl metrics_dict metric)))"
    using h unfolding train_Compile by blast
next
  fix d entry bv nm
  assume d: "metrics_dict = Some d \<and> truthy_dict metrics_dict"
    and h: "getitem d metric = Inr entry \<and> getitem entry ''best_value'' = Inr bv \<and>
           getitem entry ''name'' = Inr nm \<and> makedirs_raises en = None \<and>
           (py_in ftl (map layer.name (layers model)) \<or> \<not> truthy ftl) \<and>
           compile_raises en = None"
  have r: "resolve_metrics metrics_dict metric = Inr (Some bv, nm)"
    using d h resolve_metrics_truthy [of d metric entry bv nm] by auto
  have "fit_call tg vg n
          [EarlyStopping metric (1 / 1000) 20 bv 2 True,
           ModelCheckpoint (path_join (path_join pf (train_date en))
                              (model.name model @ ''_best_'' @ metric @ ''.h5''))
             metric 2 True bv 1,
           WarmUpCosineDecayScheduler lr (int (len tg) * n) 0 (int (len tg) * min 3 (n - 1)) 0 1,
           TensorBoard ''logs'' 1] =
        fit_call tg vg n
          [early_stop metric bv,
           checkpoint (path_join (path_join pf (train_date en))
                         (model.name model @ ''_best_'' @ metric @ ''.h5'')) metric bv,
           warm_up_lr lr tg n, tensorboard_callback]"
    by (simp add: early_stop_def checkpoint_def warm_up_lr_def tensorboard_callback_def)
  then show "Fit (fit_call tg vg n
                  [EarlyStopping metric (1 / 1000) 20 bv 2 True,
                   ModelCheckpoint (path_join (path_join pf (train_date en))
                                      (model.name model @ ''_best_'' @ metric @ ''.h5''))
                     metric 2 True bv 1,
                   WarmUpCosineDecayScheduler lr (int (len tg) * n) 0
                     (int (len tg) * min 3 (n - 1)) 0 1,
                   TensorBoard ''logs'' 1])
             \<in> set (trace (fst (train en model lf tg vg lr n pf ftl metrics_dict metric)))"
    using h r unfolding train_Fit by blast
next
  fix l opt ms
  assume "\<not> truthy_dict metrics_dict"
    and "Compile l opt ms \<in> set (trace (fst (train en model lf tg vg lr n pf ftl metrics_dict metric)))"
  then show "ms = metric"
    unfolding train_Compile by (auto simp: resolve_metrics_falsy)
next
  assume "\<not> truthy_dict metrics_dict"
    and "makedirs_raises en = None \<and> (py_in ftl (map layer.name (layers model)) \<or> \<not> truthy ftl)"
  then show "Compile lf (Adam lr (9 / 10) (999 / 1000) (1 / 100000000) 0) metric
           \<in> set (trace (fst (train en model lf tg vg lr n pf ftl metrics_dict metric)))"
    unfolding train_Compile by (auto simp: resolve_metrics_falsy)
qed


theorem metrics_and_mode_resolution_witness:
  "truthy_dict example_metrics
   \<and> makedirs_raises example_env = None \<and> compile_raises example_env = None
   \<and> Compile () (Adam (1 / 10000) (9 / 10) (999 / 1000) (1 / 100000000) 0) ''loss''
       \<in> set (trace (fst (train example_env example_model () \<lparr>len = 10\<rparr> \<lparr>len = 2\<rparr> (1 / 10000) 5
            ''project'' (PyStr ''conv_2'') example_metrics ''val_loss'')))
   \<and> Fit (fit_call \<lparr>len = 10\<rparr> \<lparr>len = 2\<rparr> 5
          [EarlyStopping ''val_loss'' (1 / 1000) 20 ''min'' 2 True,
           ModelCheckpoint ''project/2020-01-31_12-00-00/yolo_best_val_loss.h5''
             ''val_loss'' 2 True ''min'' 1,
           WarmUpCosineDecayScheduler (1 / 10000) 50 0 30 0 1,
           TensorBoard ''logs'' 1])
       \<in> set (trace (fst (train example_env example_model () \<lparr>len = 10\<rparr> \<lparr>len = 2\<rparr> (1 / 10000) 5
            ''project'' (PyStr ''conv_2'') example_metrics ''val_loss'')))
   \<and> \<not> truthy_dict (None :: string dict dict option)
   \<and> Compile () (Adam (1 / 10000) (9 / 10) (999 / 1000) (1 / 100000000) 0) ''val_loss''
       \<in> set (trace (fst (train example_env example_model () \<lparr>len = 10\<rparr> \<lparr>len = 2\<rparr> (1 / 10000) 5
            ''project'' (PyStr ''conv_2'') None ''val_loss'')))"
proof -
  let ?d = "[(''val_loss'', [(''name'', ''loss''), (''best_value'', ''min'')])]"
  have t: "example_metrics = Some ?d \<and> truthy_dict example_metrics"
    by (simp add: example_metrics_def)
  have ok: "makedirs_raises example_env = None \<and>
      (py_in (PyStr ''conv_2'') (map layer.name (layers example_model)) \<or> \<not> truthy (PyStr ''conv_2''))"
    by (simp add: example_env_def example_model_def py_in_def)
  have cok: "compile_raises example_env = None"
    by (simp add: example_env_def)
  note thm1 = metrics_and_mode_resolution [of example_metrics example_env example_model "()"
      "\<lparr>len = 10\<rparr>" "\<lparr>len = 2\<rparr>" "1 / 10000" 5 "''project''" "PyStr ''conv_2''" "''val_loss''"]
  note thm2 = metrics_and_mode_resolution [of None example_env example_model "()"
      "\<lparr>len = 10\<rparr>" "\<lparr>len = 2\<rparr>" "1 / 10000" 5 "''project''" "PyStr ''conv_2''" "''val_loss''"]
  have c1: "Compile () (Adam (1 / 10000) (9 / 10) (999 / 1000) (1 / 100000000) 0) ''loss''
       \<in> set (trace (fst (train example_env example_model () \<lparr>len = 10\<rparr> \<lparr>len = 2\<rparr> (1 / 10000) 5
            ''project'' (PyStr ''conv_2'') example_metrics ''val_loss'')))"
    using thm1 t ok getitem_example by blast
  have "Fit (fit_call \<lparr>len = 10\<rparr> \<lparr>len = 2\<rparr> 5
          [EarlyStopping ''val_loss'' (1 / 1000) 20 ''min'' 2 True,
           ModelCheckpoint (path_join (path_join ''project'' (train_date example_env))
                              (model.name example_model @ ''_best_'' @ ''val_loss'' @ ''.h5''))
             ''val_loss'' 2 True ''min'' 1,
           WarmUpCosineDecayScheduler (1 / 10000) (int (len \<lparr>len = 10\<rparr>) * 5) 0
             (int (len \<lparr>len = 10\<rparr>) * min 3 (5 - 1)) 0 1,
           TensorBoard ''logs'' 1])
       \<in> set (trace (fst (train example_env example_model () \<lparr>len = 10\<rparr> \<lparr>len = 2\<rparr> (1 / 10000) 5
            ''project'' (PyStr ''conv_2'') example_metrics ''val_loss'')))"
    using thm1 t ok cok getitem_example by blast
  moreover have "path_join (path_join ''project'' (train_date example_env))
        (model.name example_model @ ''_best_'' @ ''val_loss'' @ ''.h5'') =
      ''project/2020-01-31_12-00-00/yolo_best_val_loss.h5''"
    by (simp add: path_join_def example_env_def example_model_def)
  ultimately have c2: "Fit (fit_call \<lparr>len = 10\<rparr> \<lparr>len = 2\<rparr> 5
          [EarlyStopping ''val_loss'' (1 / 1000) 20 ''min'' 2 True,
           ModelCheckpoint ''project/2020-01-31_12-00-00/yolo_best_val_loss.h5''
             ''val_loss'' 2 True ''min'' 1,
           WarmUpCosineDecayScheduler (1 / 10000) 50 0 30 0 1,
           TensorBoard ''logs'' 1])
       \<in> set (trace (fst (train example_env example_model () \<lparr>len = 10\<rparr> \<lparr>len = 2\<rparr> (1 / 10000) 5
            ''project'' (PyStr ''conv_2'') example_metrics ''val_loss'')))"
    by simp
  have c3: "Compile () (Adam (1 / 10000) (9 / 10) (999 / 1000) (1 / 100000000) 0) ''val_loss''
       \<in> set (trace (fst (train example_env example_model () \<lparr>len = 10\<rparr> \<lparr>len = 2\<rparr> (1 / 10000) 5
            ''project'' (PyStr ''conv_2'') None ''val_loss'')))"
    using thm2 ok by simp
  from t ok cok c1 c2 c3 show ?thesis by simp
qed

end
